theory Spec2Isabelle
  imports Main
begin

section \<open>Values, errors and rows of the durable store\<close>

text \<open>
  The gateway (src/gateway) keeps three record sets in a SQL store (gateway/db_backend.py):
  \<open>tx_queue\<close>, \<open>xp_events\<close> and \<open>agent_stats\<close>, beside \<open>wallet_bindings\<close> and
  \<open>action_log\<close>. A table with an AUTOINCREMENT key is a list of rows in insertion order
  with the last key handed out; a table with a TEXT primary key is a map from that key.
  SQL NULL is \<open>None\<close>. \<open>time.time()\<close> is read from the field \<open>clock\<close> of the state, as a
  whole number of seconds; \<open>asyncio.sleep(n)\<close> advances it by \<open>n\<close>. The store itself
  never fails: the only exception an INSERT raises is the violation of a UNIQUE
  constraint of the schema.
\<close>

text \<open>
  JSON values. The TEXT columns that hold \<open>json.dumps\<close> of a list keep the list itself:
  \<open>json.loads\<close> of what \<open>json.dumps\<close> wrote gives it back.
\<close>

datatype jval =
    JInt int
  | JStr string
  | JBool bool
  | JNull
  | JList "jval list"
  | JObj "(string \<times> jval) list"

datatype exn =
    HTTPException int string
  | IntegrityError string
  | PyTypeError string
  | PyRuntimeError string
  | Web3Exception string

fun str_exn :: "exn \<Rightarrow> string" where
  "str_exn (HTTPException c d) = d"
| "str_exn (IntegrityError m) = m"
| "str_exn (PyTypeError m) = m"
| "str_exn (PyRuntimeError m) = m"
| "str_exn (Web3Exception m) = m"

record queue_entry =
  q_id :: int
  q_action_id :: string
  q_moltbook_id :: string
  q_method :: string
  q_params :: "jval list"
  q_status :: string
  q_tx_hash :: "string option"
  q_error :: "string option"
  q_created_at :: int
  q_updated_at :: int

record xp_event =
  e_id :: int
  e_idempotency_key :: string
  e_moltbook_id :: string
  e_session_id :: int
  e_epoch_id :: int
  e_event_type :: string
  e_xp_amount :: int
  e_gold_amount :: int
  e_source :: string
  e_metadata :: "string option"
  e_created_at :: int

record stats_row =
  display_name :: "string option"
  total_xp :: int
  current_level :: string
  lifetime_sessions :: "int option"
  lifetime_wins :: "int option"
  lifetime_gold :: int
  dm_sessions :: "int option"
  last_session_at :: "int option"
  st_created_at :: "int option"

record action_log_row =
  al_id :: int
  al_action_id :: string
  al_session_id :: int
  al_moltbook_id :: string
  al_action_type :: string
  al_epoch_id :: int
  al_action_text :: "string option"
  al_dm_actions_json :: "jval option"
  al_created_at :: int

record raw_tx =
  tx_from :: string
  tx_nonce :: int
  tx_chain_id :: int
  tx_gas :: int
  tx_gas_price :: int
  tx_value :: int
  tx_method :: string
  tx_args :: "jval list"

record gw =
  clock :: int
  wallet_bindings :: "string \<rightharpoonup> string"
  tx_queue :: "queue_entry list"
  tx_queue_seq :: int
  xp_events :: "xp_event list"
  xp_events_seq :: int
  agent_stats :: "string \<rightharpoonup> stats_row"
  action_log :: "action_log_row list"
  action_log_seq :: int
  nonce :: "int option"
  sent :: "raw_tx list"
  log :: "(string \<times> string) list"

definition empty_gw :: gw where
  "empty_gw = \<lparr>clock = 0, wallet_bindings = Map.empty, tx_queue = [], tx_queue_seq = 0,
     xp_events = [], xp_events_seq = 0, agent_stats = Map.empty, action_log = [],
     action_log_seq = 0, nonce = None, sent = [], log = []\<rparr>"

section \<open>RewardLedger: award and rebuild (gateway/database.py)\<close>

text \<open>
  The CASE expression of the upsert in \<open>award_xp\<close> (database.py, lines 188-193) and the
  if/elif chain of \<open>rebuild_agent_stats\<close> (lines 287-293) are the same three tests in the
  same order; each is kept as the source writes it.
\<close>

definition sql_level :: "int \<Rightarrow> string" where
  "sql_level t =
     (if t \<ge> 10000 then ''legend''
      else if t \<ge> 2000 then ''veteran''
      else if t \<ge> 500 then ''adventurer''
      else ''novice'')"

definition py_level :: "int \<Rightarrow> string" where
  "py_level t_xp =
     (let level = ''novice'' in
      if t_xp \<ge> 10000 then ''legend''
      else if t_xp \<ge> 2000 then ''veteran''
      else if t_xp \<ge> 500 then ''adventurer''
      else level)"

text \<open>SQL \<open>x + 1\<close> on a nullable column: NULL stays NULL.\<close>

definition sql_incr :: "int option \<Rightarrow> int option" where
  "sql_incr c = (case c of None \<Rightarrow> None | Some n \<Rightarrow> Some (n + 1))"

text \<open>
  \<open>INSERT INTO agent_stats (moltbook_id, total_xp, lifetime_gold, created_at) ... ON
  CONFLICT(moltbook_id) DO UPDATE SET ...\<close>: a new row takes the schema's defaults for
  the columns the INSERT does not name (\<open>current_level\<close> DEFAULT 'novice', the three
  counters DEFAULT 0); an existing row is updated from its old values.
\<close>

definition upsert_award :: "string \<Rightarrow> int \<Rightarrow> int \<Rightarrow> gw \<Rightarrow> gw" where
  "upsert_award moltbook_id xp gold s =
     (case agent_stats s moltbook_id of
        None \<Rightarrow>
          s\<lparr>agent_stats := (agent_stats s)(moltbook_id \<mapsto>
              \<lparr>display_name = None, total_xp = xp, current_level = ''novice'',
               lifetime_sessions = Some 0, lifetime_wins = Some 0, lifetime_gold = gold,
               dm_sessions = Some 0, last_session_at = None,
               st_created_at = Some (clock s)\<rparr>)\<rparr>
      | Some r \<Rightarrow>
          s\<lparr>agent_stats := (agent_stats s)(moltbook_id \<mapsto>
              r\<lparr>total_xp := total_xp r + xp,
                lifetime_gold := lifetime_gold r + gold,
                current_level := sql_level (total_xp r + xp)\<rparr>)\<rparr>)"

definition update_stats :: "string \<Rightarrow> (stats_row \<Rightarrow> stats_row) \<Rightarrow> gw \<Rightarrow> gw" where
  "update_stats moltbook_id f s =
     (case agent_stats s moltbook_id of
        None \<Rightarrow> s
      | Some r \<Rightarrow> s\<lparr>agent_stats := (agent_stats s)(moltbook_id \<mapsto> f r)\<rparr>)"

definition bump_counters :: "string \<Rightarrow> string \<Rightarrow> gw \<Rightarrow> gw" where
  "bump_counters event_type moltbook_id s =
     (if event_type = ''dm_hosted'' then
        update_stats moltbook_id (\<lambda>r. r\<lparr>dm_sessions := sql_incr (dm_sessions r)\<rparr>) s
      else if event_type = ''session_complete'' then
        update_stats moltbook_id
          (\<lambda>r. r\<lparr>lifetime_sessions := sql_incr (lifetime_sessions r),
                 last_session_at := Some (clock s)\<rparr>) s
      else if event_type = ''win'' then
        update_stats moltbook_id (\<lambda>r. r\<lparr>lifetime_wins := sql_incr (lifetime_wins r)\<rparr>) s
      else s)"

definition insert_xp_event ::
  "string \<Rightarrow> string \<Rightarrow> int \<Rightarrow> int \<Rightarrow> string \<Rightarrow> int \<Rightarrow> int \<Rightarrow> string \<Rightarrow> string option
     \<Rightarrow> gw \<Rightarrow> gw" where
  "insert_xp_event idempotency_key moltbook_id session_id epoch_id event_type xp_amount
       gold_amount source metadata s =
     s\<lparr>xp_events := xp_events s @
          [\<lparr>e_id = xp_events_seq s + 1, e_idempotency_key = idempotency_key,
            e_moltbook_id = moltbook_id, e_session_id = session_id, e_epoch_id = epoch_id,
            e_event_type = event_type, e_xp_amount = xp_amount,
            e_gold_amount = gold_amount, e_source = source, e_metadata = metadata,
            e_created_at = clock s\<rparr>],
       xp_events_seq := xp_events_seq s + 1\<rparr>"

text \<open>
  \<open>award_xp\<close> (database.py, lines 160-219). The INSERT into \<open>xp_events\<close> raises when
  the key is already there (\<open>idempotency_key TEXT UNIQUE\<close>); the handler finds "unique"
  in the message, rolls the transaction back and returns False. Otherwise the three
  statements commit together and the function returns True.
\<close>

definition award_xp ::
  "string \<Rightarrow> string \<Rightarrow> int \<Rightarrow> int \<Rightarrow> string \<Rightarrow> int \<Rightarrow> int \<Rightarrow> string \<Rightarrow> string option
     \<Rightarrow> gw \<Rightarrow> bool \<times> gw" where
  "award_xp idempotency_key moltbook_id session_id epoch_id event_type xp_amount
       gold_amount source metadata s =
     (if list_ex (\<lambda>e. e_idempotency_key e = idempotency_key) (xp_events s) then (False, s)
      else
        (True,
         bump_counters event_type moltbook_id
           (upsert_award moltbook_id xp_amount gold_amount
              (insert_xp_event idempotency_key moltbook_id session_id epoch_id event_type
                 xp_amount gold_amount source metadata s))))"

text \<open>
  \<open>rebuild_agent_stats\<close> (database.py, lines 271-304). The aggregate SELECT has no
  GROUP BY, so it returns one row whatever the table holds and \<open>if not rows: return\<close>
  is never taken. \<open>SUM\<close> over no rows is NULL; the two amounts are wrapped in COALESCE,
  the three counters are not.
\<close>

definition sql_count_type :: "string \<Rightarrow> xp_event list \<Rightarrow> int option" where
  "sql_count_type t evs =
     (if evs = [] then None
      else Some (sum_list (map (\<lambda>e. if e_event_type e = t then 1 else 0) evs)))"

definition rebuild_agent_stats :: "string \<Rightarrow> gw \<Rightarrow> gw" where
  "rebuild_agent_stats moltbook_id s =
     (let evs = filter (\<lambda>e. e_moltbook_id e = moltbook_id) (xp_events s);
          t_xp = sum_list (map e_xp_amount evs);
          t_gold = sum_list (map e_gold_amount evs);
          sessions = sql_count_type ''session_complete'' evs;
          wins = sql_count_type ''win'' evs;
          dms = sql_count_type ''dm_hosted'' evs;
          level = py_level t_xp
      in case agent_stats s moltbook_id of
           None \<Rightarrow>
             s\<lparr>agent_stats := (agent_stats s)(moltbook_id \<mapsto>
                 \<lparr>display_name = None, total_xp = t_xp, current_level = level,
                  lifetime_sessions = sessions, lifetime_wins = wins,
                  lifetime_gold = t_gold, dm_sessions = dms, last_session_at = None,
                  st_created_at = Some (clock s)\<rparr>)\<rparr>
         | Some r \<Rightarrow>
             s\<lparr>agent_stats := (agent_stats s)(moltbook_id \<mapsto>
                 r\<lparr>total_xp := t_xp, lifetime_gold := t_gold,
                   lifetime_sessions := sessions, lifetime_wins := wins,
                   dm_sessions := dms, current_level := level\<rparr>)\<rparr>)"

text \<open>The six columns of SubjectStats that the specification compares.\<close>

definition stats_view ::
  "stats_row \<Rightarrow> int \<times> int \<times> int option \<times> int option \<times> int option \<times> string" where
  "stats_view r =
     (total_xp r, lifetime_gold r, lifetime_sessions r, lifetime_wins r, dm_sessions r,
      current_level r)"


section \<open>Python's str on an integer\<close>

fun str_nat :: "nat \<Rightarrow> string" where
  "str_nat n =
     (if n < 10 then [''0123456789'' ! n]
      else str_nat (n div 10) @ [''0123456789'' ! (n mod 10)])"

declare str_nat.simps [simp del]

definition str_int :: "int \<Rightarrow> string" where
  "str_int i = (if i < 0 then CHR ''-'' # str_nat (nat (- i)) else str_nat (nat i))"

section \<open>TransactionQueue (gateway/database.py, lines 98-155)\<close>

definition log_event :: "string \<Rightarrow> string \<Rightarrow> gw \<Rightarrow> gw" where
  "log_event level event s = s\<lparr>log := log s @ [(level, event)]\<rparr>"

definition sleep :: "int \<Rightarrow> gw \<Rightarrow> gw" where
  "sleep n s = s\<lparr>clock := clock s + n\<rparr>"

definition same_action :: "string \<Rightarrow> string \<Rightarrow> queue_entry \<Rightarrow> bool" where
  "same_action moltbook_id action_id r \<longleftrightarrow>
     q_moltbook_id r = moltbook_id \<and> q_action_id r = action_id"

text \<open>
  \<open>enqueue_tx\<close>: the INSERT names seven columns, \<open>tx_hash\<close> and \<open>error\<close> stay NULL. The
  table has \<open>UNIQUE(moltbook_id, action_id)\<close>: on a pair that is already there the
  INSERT raises, and \<open>enqueue_tx\<close> has no handler, so the exception leaves the function.
  Both backends run the same INSERT and return the new key.
\<close>

definition enqueue_tx ::
  "string \<Rightarrow> string \<Rightarrow> string \<Rightarrow> jval list \<Rightarrow> gw \<Rightarrow> (exn + int) \<times> gw" where
  "enqueue_tx action_id moltbook_id method params s =
     (let now = clock s in
      if list_ex (same_action moltbook_id action_id) (tx_queue s) then
        (Inl (IntegrityError ''UNIQUE constraint failed: tx_queue.moltbook_id, tx_queue.action_id''), s)
      else
        (Inr (tx_queue_seq s + 1),
         s\<lparr>tx_queue := tx_queue s @
              [\<lparr>q_id = tx_queue_seq s + 1, q_action_id = action_id,
                q_moltbook_id = moltbook_id, q_method = method, q_params = params,
                q_status = ''pending'', q_tx_hash = None, q_error = None,
                q_created_at = now, q_updated_at = now\<rparr>],
           tx_queue_seq := tx_queue_seq s + 1\<rparr>))"

definition get_tx :: "int \<Rightarrow> gw \<Rightarrow> queue_entry option" where
  "get_tx tx_id s = find (\<lambda>r. q_id r = tx_id) (tx_queue s)"

definition get_tx_by_action :: "string \<Rightarrow> string \<Rightarrow> gw \<Rightarrow> queue_entry option" where
  "get_tx_by_action moltbook_id action_id s =
     find (same_action moltbook_id action_id) (tx_queue s)"

text \<open>
  \<open>get_pending_txs\<close>: \<open>ORDER BY created_at LIMIT ?\<close>. Rows with the same \<open>created_at\<close>
  come in insertion order (the sort is stable).
\<close>

definition get_pending_txs :: "nat \<Rightarrow> gw \<Rightarrow> queue_entry list" where
  "get_pending_txs limit s =
     take limit (sort_key q_created_at (filter (\<lambda>r. q_status r = ''pending'') (tx_queue s)))"

text \<open>
  \<open>update_tx_status\<close>: one UPDATE that writes all of \<open>status\<close>, \<open>tx_hash\<close>, \<open>error\<close> and
  \<open>updated_at\<close>; the defaults \<open>tx_hash = None\<close> and \<open>error = None\<close> write NULL.
\<close>

definition update_tx_status ::
  "int \<Rightarrow> string \<Rightarrow> string option \<Rightarrow> string option \<Rightarrow> gw \<Rightarrow> gw" where
  "update_tx_status tx_id status tx_hash error s =
     s\<lparr>tx_queue :=
         map (\<lambda>r. if q_id r = tx_id
                  then r\<lparr>q_status := status, q_tx_hash := tx_hash, q_error := error,
                         q_updated_at := clock s\<rparr>
                  else r)
             (tx_queue s)\<rparr>"

definition count_recent_txs :: "string \<Rightarrow> int \<Rightarrow> gw \<Rightarrow> int" where
  "count_recent_txs moltbook_id window_seconds s =
     int (length (filter (\<lambda>r. q_moltbook_id r = moltbook_id
                              \<and> q_created_at r > clock s - window_seconds)
                         (tx_queue s)))"

text \<open>
  \<open>log_action\<close> (lines 222-238): \<open>action_log.action_id\<close> is UNIQUE; a second insert of
  the same id is caught and reported as False.
\<close>

definition log_action ::
  "string \<Rightarrow> int \<Rightarrow> string \<Rightarrow> string \<Rightarrow> int \<Rightarrow> string option \<Rightarrow> jval option
     \<Rightarrow> gw \<Rightarrow> bool \<times> gw" where
  "log_action action_id session_id moltbook_id action_type epoch_id action_text
       dm_actions_json s =
     (if list_ex (\<lambda>r. al_action_id r = action_id) (action_log s) then (False, s)
      else
        (True,
         s\<lparr>action_log := action_log s @
              [\<lparr>al_id = action_log_seq s + 1, al_action_id = action_id,
                al_session_id = session_id, al_moltbook_id = moltbook_id,
                al_action_type = action_type, al_epoch_id = epoch_id,
                al_action_text = action_text, al_dm_actions_json = dm_actions_json,
                al_created_at = clock s\<rparr>],
           action_log_seq := action_log_seq s + 1\<rparr>))"

definition get_wallet_binding :: "string \<Rightarrow> gw \<Rightarrow> string option" where
  "get_wallet_binding moltbook_id s = wallet_bindings s moltbook_id"


section \<open>LedgerReader (gateway/contract.py, lines 131-182)\<close>

text \<open>
  The ledger is outside the program. What it answers while one request is handled is
  an argument of the handler: the tuple that \<open>sessions(id).call()\<close> returns for each
  session id and the answers of the epoch getters, \<open>None\<close> when the call raises. Of the
  session tuple the fields that a handler reads are kept.
\<close>

record raw_session =
  rs_dungeon_id :: int
  rs_dm :: string
  rs_state :: int
  rs_turn_number :: int
  rs_current_actor :: string
  rs_dm_epoch :: int

record raw_epoch =
  re_current_epoch :: int
  re_epoch_state :: int
  re_grace_start_time :: int
  re_session_count :: int
  re_active_session_count :: int

record ledger =
  lg_sessions :: "int \<Rightarrow> raw_session option"
  lg_epoch :: "raw_epoch option"

record session_info =
  si_session_id :: int
  si_dungeon_id :: int
  si_dm :: "string option"
  si_state :: int
  si_state_name :: string
  si_current_turn :: int
  si_current_actor :: "string option"
  si_dm_epoch :: int

record epoch_info =
  ei_current_epoch :: int
  ei_epoch_state :: string
  ei_epoch_state_raw :: int
  ei_grace_start_time :: int
  ei_session_counter :: int
  ei_active_session_count :: int

definition SESSION_STATES :: "int \<rightharpoonup> string" where
  "SESSION_STATES =
     [0 \<mapsto> ''Waiting'', 1 \<mapsto> ''WaitingDM'', 2 \<mapsto> ''Active'', 3 \<mapsto> ''Completed'',
      4 \<mapsto> ''Failed'', 5 \<mapsto> ''Cancelled'', 6 \<mapsto> ''TimedOut'']"

definition ZERO_ADDR :: string where
  "ZERO_ADDR = ''0x0000000000000000000000000000000000000000''"

definition get_session_info :: "ledger \<Rightarrow> int \<Rightarrow> session_info option" where
  "get_session_info lg session_id =
     (case lg_sessions lg session_id of
        None \<Rightarrow> None
      | Some result \<Rightarrow>
          Some \<lparr>si_session_id = session_id,
                si_dungeon_id = rs_dungeon_id result,
                si_dm = (if rs_dm result \<noteq> ZERO_ADDR then Some (rs_dm result) else None),
                si_state = rs_state result,
                si_state_name =
                  (case SESSION_STATES (rs_state result) of
                     Some n \<Rightarrow> n | None \<Rightarrow> ''Unknown''),
                si_current_turn = rs_turn_number result,
                si_current_actor =
                  (if rs_current_actor result \<noteq> ZERO_ADDR
                   then Some (rs_current_actor result) else None),
                si_dm_epoch = rs_dm_epoch result\<rparr>)"

text \<open>\<open>get_epoch_info\<close> returns the empty dict when a getter raises: \<open>None\<close> here.\<close>

definition get_epoch_info :: "ledger \<Rightarrow> epoch_info option" where
  "get_epoch_info lg =
     (case lg_epoch lg of
        None \<Rightarrow> None
      | Some e \<Rightarrow>
          Some \<lparr>ei_current_epoch = re_current_epoch e,
                ei_epoch_state = (if re_epoch_state e = 0 then ''Active'' else ''Grace''),
                ei_epoch_state_raw = re_epoch_state e,
                ei_grace_start_time = re_grace_start_time e,
                ei_session_counter = re_session_count e,
                ei_active_session_count = re_active_session_count e\<rparr>)"

definition epoch_or_zero :: "epoch_info option \<Rightarrow> int" where
  "epoch_or_zero ei = (case ei of None \<Rightarrow> 0 | Some e \<Rightarrow> ei_current_epoch e)"

section \<open>Admission: the game endpoints (gateway/main.py, lines 199-413)\<close>

text \<open>
  A handler returns a response or raises; either way it may have changed the state.
  A handler runs as one step: it reads one clock value and one snapshot of the ledger.
  \<open>JSONResponse\<close> is what \<open>error_response\<close> builds: status code, error code, message and
  the extra keyword arguments. Authentication and the shape of a request are checked
  at the boundary (pydantic, \<open>require_auth\<close>); a handler gets the caller's
  \<open>moltbook_id\<close> and a well-typed request.
\<close>

datatype response =
    TxStatusResponse int string string "string option" "string option"
  | JSONResponse int string string "(string \<times> jval) list"

definition error_response ::
  "string \<Rightarrow> string \<Rightarrow> int \<Rightarrow> (string \<times> jval) list \<Rightarrow> response" where
  "error_response code message status kwargs = JSONResponse status code message kwargs"

definition validate_turn_index :: "ledger \<Rightarrow> int \<Rightarrow> int \<Rightarrow> response + session_info" where
  "validate_turn_index lg session_id turn_index =
     (case get_session_info lg session_id of
        None \<Rightarrow>
          Inl (error_response ''SESSION_NOT_FOUND''
                 (''Session '' @ str_int session_id @ '' not found'') 404 [])
      | Some info \<Rightarrow>
          if si_state info \<noteq> 2 then
            Inl (error_response ''SESSION_NOT_ACTIVE''
                   (''Session is in state '' @ si_state_name info @ '', not Active'')
                   409 [(''current_state'', JInt (si_state info))])
          else if turn_index \<noteq> si_current_turn info then
            Inl (error_response ''TURN_MISMATCH''
                   (''Expected turn '' @ str_int (si_current_turn info) @ '', got ''
                      @ str_int turn_index)
                   409 [(''expected'', JInt (si_current_turn info)),
                        (''got'', JInt turn_index)])
          else Inr info)"

text \<open>\<open>settings.max_tx_per_hour\<close>, the default of gateway/config.py.\<close>

definition max_tx_per_hour :: int where
  "max_tx_per_hour = 10"

definition check_rate_limit :: "string \<Rightarrow> gw \<Rightarrow> exn + unit" where
  "check_rate_limit moltbook_id s =
     (let count = count_recent_txs moltbook_id 3600 s in
      if count \<ge> max_tx_per_hour
      then Inl (HTTPException 429 ''Rate limit exceeded (10 tx/hour)'')
      else Inr ())"

definition check_idempotency :: "string \<Rightarrow> string \<Rightarrow> gw \<Rightarrow> response option" where
  "check_idempotency moltbook_id action_id s =
     (case get_tx_by_action moltbook_id action_id s of
        Some existing \<Rightarrow>
          Some (TxStatusResponse (q_id existing) (q_action_id existing) (q_status existing)
                  (q_tx_hash existing) (q_error existing))
      | None \<Rightarrow> None)"

record enter_dungeon_request =
  ed_dungeon_id :: int
  ed_action_id :: string

record submit_action_request =
  sa_session_id :: int
  sa_turn_index :: int
  sa_action :: string
  sa_action_id :: string

record dm_response_action =
  da_target :: string
  da_xp_reward :: int
  da_gold_reward :: int
  da_damage :: int
  da_is_killed :: bool

record submit_dm_request =
  sd_session_id :: int
  sd_turn_index :: int
  sd_narrative :: string
  sd_actions :: "dm_response_action list"
  sd_is_complete :: bool
  sd_is_failed :: bool
  sd_action_id :: string

record accept_dm_request =
  ad_session_id :: int
  ad_dm_epoch :: int
  ad_action_id :: string

text \<open>
  \<open>game_enter\<close> (lines 247-276): rate limit, then the epoch check, then the lookup of
  the pair, then the insert. \<open>enter_queue\<close> is the part from the lookup on.
\<close>

definition enter_queue ::
  "epoch_info option \<Rightarrow> string \<Rightarrow> enter_dungeon_request \<Rightarrow> gw \<Rightarrow> (exn + response) \<times> gw" where
  "enter_queue epoch_info moltbook_id req s =
     (case check_idempotency moltbook_id (ed_action_id req) s of
        Some existing \<Rightarrow> (Inr existing, s)
      | None \<Rightarrow>
          (case enqueue_tx (ed_action_id req) moltbook_id ''enterDungeon''
                  [JInt (ed_dungeon_id req)] s of
             (Inl e, s1) \<Rightarrow> (Inl e, s1)
           | (Inr tx_id, s1) \<Rightarrow>
               let s2 = log_event ''info'' ''enter_queued'' s1;
                   s3 = snd (log_action (ed_action_id req) 0 moltbook_id ''enter''
                               (epoch_or_zero epoch_info) None None s2)
               in (Inr (TxStatusResponse tx_id (ed_action_id req) ''pending'' None None),
                   s3)))"

definition game_enter ::
  "ledger \<Rightarrow> string \<Rightarrow> enter_dungeon_request \<Rightarrow> gw \<Rightarrow> (exn + response) \<times> gw" where
  "game_enter lg moltbook_id req s =
     (case check_rate_limit moltbook_id s of
        Inl e \<Rightarrow> (Inl e, s)
      | Inr _ \<Rightarrow>
          (case get_epoch_info lg of
             None \<Rightarrow> enter_queue None moltbook_id req s
           | Some ei \<Rightarrow>
               if ei_epoch_state_raw ei \<noteq> 0 then
                 (Inr (error_response ''EPOCH_NOT_ACTIVE''
                         ''Cannot enter dungeon during Grace period. Wait for next epoch.''
                         409
                         [(''current_epoch'', JInt (ei_current_epoch ei)),
                          (''epoch_state'', JStr (ei_epoch_state ei))]), s)
               else enter_queue (Some ei) moltbook_id req s))"

text \<open>
  \<open>game_action\<close> (lines 279-308): rate limit, then the lookup of the pair, then
  \<open>validate_turn_index\<close>, then the wallet binding, then the insert.
\<close>

definition game_action ::
  "ledger \<Rightarrow> string \<Rightarrow> submit_action_request \<Rightarrow> gw \<Rightarrow> (exn + response) \<times> gw" where
  "game_action lg moltbook_id req s =
     (case check_rate_limit moltbook_id s of
        Inl e \<Rightarrow> (Inl e, s)
      | Inr _ \<Rightarrow>
          (case check_idempotency moltbook_id (sa_action_id req) s of
             Some existing \<Rightarrow> (Inr existing, s)
           | None \<Rightarrow>
               (case validate_turn_index lg (sa_session_id req) (sa_turn_index req) of
                  Inl validation \<Rightarrow> (Inr validation, s)
                | Inr validation \<Rightarrow>
                    (case get_wallet_binding moltbook_id s of
                       None \<Rightarrow>
                         (Inl (HTTPException 400 ''Link wallet first via /auth/link-simple''), s)
                     | Some player_address \<Rightarrow>
                         (case enqueue_tx (sa_action_id req) moltbook_id ''submitAction''
                                 [JInt (sa_session_id req), JInt (sa_turn_index req),
                                  JStr (sa_action req), JStr player_address] s of
                            (Inl e, s1) \<Rightarrow> (Inl e, s1)
                          | (Inr tx_id, s1) \<Rightarrow>
                              let s2 = log_event ''info'' ''action_queued'' s1;
                                  ei = get_epoch_info lg;
                                  s3 = snd (log_action (sa_action_id req) (sa_session_id req)
                                              moltbook_id ''action'' (epoch_or_zero ei)
                                              None None s2)
                              in (Inr (TxStatusResponse tx_id (sa_action_id req) ''pending''
                                         None None), s3))))))"

text \<open>
  \<open>game_dm\<close> (lines 311-359). \<open>dm_actions\<close> is the list of DMAction tuples built from
  the request; \<open>dm_address\<close> is \<open>validation.get("dm") or validation.get("current_actor")\<close>.
\<close>

definition dm_action_tuples :: "dm_response_action \<Rightarrow> jval list" where
  "dm_action_tuples a =
     (if da_gold_reward a > 0
      then [JList [JInt 1, JStr (da_target a), JInt (da_gold_reward a), JStr []]] else [])
     @ (if da_xp_reward a > 0
        then [JList [JInt 2, JStr (da_target a), JInt (da_xp_reward a), JStr []]] else [])
     @ (if da_damage a > 0
        then [JList [JInt 3, JStr (da_target a), JInt (da_damage a), JStr []]] else [])
     @ (if da_is_killed a
        then [JList [JInt 4, JStr (da_target a), JInt 0, JStr []]] else [])"

definition dm_actions_of :: "submit_dm_request \<Rightarrow> jval list" where
  "dm_actions_of req =
     concat (map dm_action_tuples (sd_actions req))
     @ (if sd_is_complete req then [JList [JInt 5, JStr ZERO_ADDR, JInt 0, JStr []]] else [])
     @ (if sd_is_failed req then [JList [JInt 6, JStr ZERO_ADDR, JInt 0, JStr []]] else [])"

definition dm_actions_log :: "submit_dm_request \<Rightarrow> jval option" where
  "dm_actions_log req =
     (if sd_actions req = [] then None
      else Some (JList (map (\<lambda>a. JObj [(''target'', JStr (da_target a)),
                                        (''gold_reward'', JInt (da_gold_reward a)),
                                        (''xp_reward'', JInt (da_xp_reward a)),
                                        (''damage'', JInt (da_damage a)),
                                        (''is_killed'', JBool (da_is_killed a))])
                            (sd_actions req))))"

definition jstr_or_null :: "string option \<Rightarrow> jval" where
  "jstr_or_null x = (case x of None \<Rightarrow> JNull | Some a \<Rightarrow> JStr a)"

text \<open>Python's \<open>a or b\<close> on two optional strings: \<open>a\<close> unless it is None or empty.\<close>

definition py_or :: "string option \<Rightarrow> string option \<Rightarrow> string option" where
  "py_or a b = (case a of None \<Rightarrow> b | Some x \<Rightarrow> if x = [] then b else Some x)"

definition game_dm ::
  "ledger \<Rightarrow> string \<Rightarrow> submit_dm_request \<Rightarrow> gw \<Rightarrow> (exn + response) \<times> gw" where
  "game_dm lg moltbook_id req s =
     (case check_rate_limit moltbook_id s of
        Inl e \<Rightarrow> (Inl e, s)
      | Inr _ \<Rightarrow>
          (case check_idempotency moltbook_id (sd_action_id req) s of
             Some existing \<Rightarrow> (Inr existing, s)
           | None \<Rightarrow>
               (case validate_turn_index lg (sd_session_id req) (sd_turn_index req) of
                  Inl validation \<Rightarrow> (Inr validation, s)
                | Inr validation \<Rightarrow>
                    let dm_actions = dm_actions_of req;
                        dm_address = py_or (si_dm validation) (si_current_actor validation)
                    in (case enqueue_tx (sd_action_id req) moltbook_id ''submitDMResponse''
                               [JInt (sd_session_id req), JInt (sd_turn_index req),
                                JStr (sd_narrative req), JList dm_actions,
                                jstr_or_null dm_address] s of
                          (Inl e, s1) \<Rightarrow> (Inl e, s1)
                        | (Inr tx_id, s1) \<Rightarrow>
                            let s2 = log_event ''info'' ''dm_response_queued'' s1;
                                ei = get_epoch_info lg;
                                s3 = snd (log_action (sd_action_id req) (sd_session_id req)
                                            moltbook_id ''dm_response'' (epoch_or_zero ei)
                                            (Some (sd_narrative req)) (dm_actions_log req) s2)
                            in (Inr (TxStatusResponse tx_id (sd_action_id req) ''pending''
                                       None None), s3)))))"

text \<open>
  \<open>game_accept_dm\<close> (lines 362-413). After the insert it awards the DM credit with the
  key \<open>dm_hosted:<session>:<caller>\<close>.
\<close>

definition game_accept_dm ::
  "ledger \<Rightarrow> string \<Rightarrow> accept_dm_request \<Rightarrow> gw \<Rightarrow> (exn + response) \<times> gw" where
  "game_accept_dm lg moltbook_id req s =
     (case check_rate_limit moltbook_id s of
        Inl e \<Rightarrow> (Inl e, s)
      | Inr _ \<Rightarrow>
          (case check_idempotency moltbook_id (ad_action_id req) s of
             Some existing \<Rightarrow> (Inr existing, s)
           | None \<Rightarrow>
               (case get_session_info lg (ad_session_id req) of
                  None \<Rightarrow>
                    (Inr (error_response ''SESSION_NOT_FOUND''
                            (''Session '' @ str_int (ad_session_id req) @ '' not found'')
                            404 []), s)
                | Some info \<Rightarrow>
                    if si_state info \<noteq> 1 then
                      (if si_state info = 2 then
                         (Inr (error_response ''ALREADY_ACCEPTED'' ''DM already accepted''
                                 200 []), s)
                       else
                         (Inr (error_response ''SESSION_NOT_WAITING_DM''
                                 (''Session is in state '' @ si_state_name info
                                    @ '', not WaitingDM'')
                                 409 [(''current_state'', JInt (si_state info))]), s))
                    else if ad_dm_epoch req \<noteq> si_dm_epoch info then
                      (Inr (error_response ''DM_EPOCH_MISMATCH''
                              (''Expected dm_epoch '' @ str_int (si_dm_epoch info)
                                 @ '', got '' @ str_int (ad_dm_epoch req))
                              409 [(''expected'', JInt (si_dm_epoch info)),
                                   (''got'', JInt (ad_dm_epoch req))]), s)
                    else
                      (case enqueue_tx (ad_action_id req) moltbook_id ''acceptDM''
                              [JInt (ad_session_id req), JInt (ad_dm_epoch req),
                               jstr_or_null (si_dm info)] s of
                         (Inl e, s1) \<Rightarrow> (Inl e, s1)
                       | (Inr tx_id, s1) \<Rightarrow>
                           let s2 = log_event ''info'' ''accept_dm_queued'' s1;
                               current_epoch = epoch_or_zero (get_epoch_info lg);
                               s3 = snd (log_action (ad_action_id req) (ad_session_id req)
                                           moltbook_id ''accept_dm'' current_epoch
                                           None None s2);
                               s4 = snd (award_xp
                                           (''dm_hosted:'' @ str_int (ad_session_id req)
                                              @ '':'' @ moltbook_id)
                                           moltbook_id (ad_session_id req) current_epoch
                                           ''dm_hosted'' 75 0 ''accept_dm'' None s3)
                           in (Inr (TxStatusResponse tx_id (ad_action_id req) ''pending''
                                      None None), s4)))))"

section \<open>NonceAllocator and broadcast (gateway/contract.py, lines 37-107)\<close>

text \<open>
  What the node answers while one \<open>send_tx\<close> runs: the signer loaded from
  \<open>settings.runner_private_key\<close> (\<open>None\<close> when the key is empty), whether
  the lookup \<open>contract.functions[method]\<close> and \<open>build_transaction\<close> go through, the pending
  transaction count of the runner, the gas price, and the hash that
  \<open>send_raw_transaction\<close> returns (\<open>None\<close> when a call raises).
\<close>

record chain =
  ch_account :: "string option"
  ch_fn_ok :: bool
  ch_tx_count :: "int option"
  ch_gas_price :: "int option"
  ch_build_ok :: bool
  ch_send_raw :: "string option"

text \<open>
  \<open>NonceManager.get_nonce\<close>: the body runs under \<open>self._lock\<close>; it has no suspension
  point, so it is one step. The field \<open>nonce\<close> of the state is \<open>self._nonce\<close>.
\<close>

definition get_nonce :: "int option \<Rightarrow> gw \<Rightarrow> (exn + int) \<times> gw" where
  "get_nonce tx_count s =
     (case nonce s of
        None \<Rightarrow>
          (case tx_count of
             None \<Rightarrow> (Inl (Web3Exception ''get_transaction_count failed''), s)
           | Some c \<Rightarrow> (Inr c, s\<lparr>nonce := Some c\<rparr>))
      | Some n \<Rightarrow> (Inr (n + 1), s\<lparr>nonce := Some (n + 1)\<rparr>))"

definition reset :: "gw \<Rightarrow> gw" where
  "reset s = s\<lparr>nonce := None\<rparr>"

definition chain_id :: int where
  "chain_id = 10143"

text \<open>
  \<open>send_tx(self, method, *args)\<close>: the signature has no keyword parameter, so a call
  that passes one raises TypeError before the body runs (the message is kept short
  here: the function, the complaint and the keyword). \<open>int(gas_price * 1.5)\<close> is
  \<open>3 * gas_price div 2\<close> on a gas price that is not negative. The transaction dict sets
  no \<open>value\<close>; the built transaction carries 0. A transaction that
  \<open>send_raw_transaction\<close> accepted is appended to \<open>sent\<close>. After the nonce is handed
  out nothing in \<open>send_tx\<close> suspends, so the broadcasts happen in the order of the
  allocations.
\<close>

definition send_tx ::
  "chain \<Rightarrow> string \<Rightarrow> jval list \<Rightarrow> (string \<times> int) list \<Rightarrow> gw \<Rightarrow> (exn + string) \<times> gw" where
  "send_tx ch method args kwargs s =
     (case kwargs of
        (k, v) # _ \<Rightarrow>
          (Inl (PyTypeError (''send_tx() got an unexpected keyword argument '' @ k)), s)
      | [] \<Rightarrow>
          (case ch_account ch of
             None \<Rightarrow> (Inl (PyRuntimeError ''No runner private key configured''), s)
           | Some runner_address \<Rightarrow>
               if \<not> ch_fn_ok ch then (Inl (Web3Exception ''contract function rejected''), s)
               else
                 (case get_nonce (ch_tx_count ch) s of
                    (Inl e, s1) \<Rightarrow> (Inl e, s1)
                  | (Inr n, s1) \<Rightarrow>
                      (case ch_gas_price ch of
                         None \<Rightarrow> (Inl (Web3Exception ''gas_price failed''), s1)
                       | Some gas_price \<Rightarrow>
                           let adjusted_gas = (gas_price * 3) div 2;
                               tx = \<lparr>tx_from = runner_address, tx_nonce = n,
                                     tx_chain_id = chain_id, tx_gas = 500000,
                                     tx_gas_price = adjusted_gas, tx_value = 0,
                                     tx_method = method, tx_args = args\<rparr>
                           in if \<not> ch_build_ok ch
                              then (Inl (Web3Exception ''build_transaction failed''), s1)
                              else
                                (case ch_send_raw ch of
                                   None \<Rightarrow>
                                     (Inl (Web3Exception ''send_raw_transaction failed''), s1)
                                 | Some tx_hash \<Rightarrow>
                                     (Inr tx_hash,
                                      log_event ''info'' ''tx_sent''
                                        (s1\<lparr>sent := sent s1 @ [tx]\<rparr>)))))))"

section \<open>SubmissionWorker and ReceiptReconciler (gateway/tx_worker.py)\<close>

definition ENTRY_BOND :: int where
  "ENTRY_BOND = 10000000000000000"

text \<open>
  A receipt is the dict that \<open>get_receipt\<close> returns; \<open>receipt.get("status")\<close> is its
  field. \<open>get_receipt\<close> returns \<open>None\<close> when the node has no receipt or the call raises.
\<close>

record receipt =
  rc_status :: "int option"

record tx_env =
  te_chain :: chain
  te_receipts :: "nat \<Rightarrow> receipt option"

text \<open>
  The polling loop of \<open>process_single_tx\<close> (lines 35-55): \<open>poll_receipt n i\<close> runs the
  \<open>n\<close> iterations that are left, the next one being attempt \<open>i\<close>; the loop is
  \<open>poll_receipt 15 0\<close>. With no iteration left the function logs the timeout and
  returns.
\<close>

fun poll_receipt ::
  "nat \<Rightarrow> nat \<Rightarrow> (nat \<Rightarrow> receipt option) \<Rightarrow> queue_entry \<Rightarrow> string \<Rightarrow> gw \<Rightarrow> gw" where
  "poll_receipt 0 i rcs tx tx_hash s = log_event ''warning'' ''tx_receipt_timeout'' s"
| "poll_receipt (Suc n) i rcs tx tx_hash s =
     (let s1 = sleep 2 s in
      case rcs i of
        None \<Rightarrow> poll_receipt n (Suc i) rcs tx tx_hash s1
      | Some receipt \<Rightarrow>
          let status = (if rc_status receipt = Some 1 then ''mined'' else ''failed'');
              s2 = update_tx_status (q_id tx) status (Some tx_hash) None s1;
              s3 = (if status = ''mined''
                    then snd (award_xp (''tx_mined:'' @ str_int (q_id tx)) (q_moltbook_id tx)
                                0 0 (''tx_'' @ q_method tx) 10 0 ''tx_worker'' None s2)
                    else s2)
          in log_event ''info'' ''tx_mined'' s3)"

text \<open>
  \<open>process_single_tx\<close> (lines 21-59). The call is
  \<open>client.send_tx(method, *params, value=value)\<close>. Inside the \<open>try\<close> only \<open>send_tx\<close> can
  raise; the handler logs the error and marks the entry failed, through
  \<open>update_tx_status\<close> with its default \<open>tx_hash = None\<close>.
\<close>

definition process_single_tx :: "tx_env \<Rightarrow> queue_entry \<Rightarrow> gw \<Rightarrow> gw" where
  "process_single_tx env tx s =
     (let tx_id = q_id tx;
          method = q_method tx;
          params = q_params tx;
          s1 = update_tx_status tx_id ''submitting'' None None s;
          value = (if method = ''enterDungeon'' then ENTRY_BOND else 0)
      in case send_tx (te_chain env) method params [(''value'', value)] s1 of
           (Inr tx_hash, s2) \<Rightarrow>
             poll_receipt 15 0 (te_receipts env) tx tx_hash
               (log_event ''info'' ''tx_submitted''
                  (update_tx_status tx_id ''submitted'' (Some tx_hash) None s2))
         | (Inl e, s2) \<Rightarrow>
             update_tx_status tx_id ''failed'' None (Some (str_exn e))
               (log_event ''error'' ''tx_failed'' s2))"

text \<open>
  \<open>process_pending_txs\<close>: up to five pending entries, one after the other. \<open>envs\<close>
  gives, for the id of an entry, what the node answers while that entry is processed.
\<close>

definition process_pending_txs :: "(int \<Rightarrow> tx_env) \<Rightarrow> gw \<Rightarrow> gw" where
  "process_pending_txs envs s =
     foldl (\<lambda>st tx. process_single_tx (envs (q_id tx)) tx st) s (get_pending_txs 5 s)"

section \<open>Operations on the gateway state\<close>

text \<open>
  The requests that can enqueue, as the router dispatches them, and the operations that
  change the state: a request of a caller, a bare \<open>enqueue_tx\<close> (the wallet-link
  endpoint calls it with the action id \<open>register:<wallet>\<close>), a cycle of the
  worker, an award, a rebuild, and time passing.
\<close>

datatype request =
    Enter enter_dungeon_request
  | Action submit_action_request
  | DM submit_dm_request
  | AcceptDM accept_dm_request


fun handle :: "ledger \<Rightarrow> string \<Rightarrow> request \<Rightarrow> gw \<Rightarrow> (exn + response) \<times> gw" where
  "handle lg moltbook_id (Enter r) s = game_enter lg moltbook_id r s"
| "handle lg moltbook_id (Action r) s = game_action lg moltbook_id r s"
| "handle lg moltbook_id (DM r) s = game_dm lg moltbook_id r s"
| "handle lg moltbook_id (AcceptDM r) s = game_accept_dm lg moltbook_id r s"

datatype op =
    OpRequest ledger string request
  | OpEnqueue string string string "jval list"
  | OpWorker "int \<Rightarrow> tx_env"
  | OpAward string string int int string int int string "string option"
  | OpRebuild string
  | OpSleep int

fun apply_op :: "op \<Rightarrow> gw \<Rightarrow> gw" where
  "apply_op (OpRequest lg moltbook_id req) s = snd (handle lg moltbook_id req s)"
| "apply_op (OpEnqueue action_id moltbook_id method params) s =
     snd (enqueue_tx action_id moltbook_id method params s)"
| "apply_op (OpWorker envs) s = process_pending_txs envs s"
| "apply_op (OpAward k m sid eid et xp gold src md) s =
     snd (award_xp k m sid eid et xp gold src md s)"
| "apply_op (OpRebuild m) s = rebuild_agent_stats m s"
| "apply_op (OpSleep n) s = sleep n s"

definition run :: "op list \<Rightarrow> gw \<Rightarrow> gw" where
  "run ops s = foldl (\<lambda>st op. apply_op op st) s ops"


text \<open>
  Attempts of one caller to enter, each made when the clock reads the given time.
\<close>

fun enter_attempts ::
  "ledger \<Rightarrow> string \<Rightarrow> (int \<times> enter_dungeon_request) list \<Rightarrow> gw
     \<Rightarrow> (exn + response) list \<times> gw" where
  "enter_attempts lg moltbook_id [] s = ([], s)"
| "enter_attempts lg moltbook_id ((t, req) # rest) s =
     (case game_enter lg moltbook_id req (s\<lparr>clock := t\<rparr>) of
        (r, s1) \<Rightarrow>
          (case enter_attempts lg moltbook_id rest s1 of
             (rs, s2) \<Rightarrow> (r # rs, s2)))"

section \<open>Properties of the queue\<close>

text \<open>
  The lifecycle order on status values: pending, submitting, submitted, then mined or
  failed. \<open>status_le a b\<close> holds when \<open>b\<close> is \<open>a\<close> or comes later; mined and failed are
  both last and neither comes after the other.
\<close>

definition status_rank :: "string \<Rightarrow> nat" where
  "status_rank st =
     (if st = ''pending'' then 0
      else if st = ''submitting'' then 1
      else if st = ''submitted'' then 2
      else 3)"

definition known_status :: "string \<Rightarrow> bool" where
  "known_status st \<longleftrightarrow>
     st = ''pending'' \<or> st = ''submitting'' \<or> st = ''submitted'' \<or> st = ''mined''
     \<or> st = ''failed''"

definition status_le :: "string \<Rightarrow> string \<Rightarrow> bool" where
  "status_le a b \<longleftrightarrow> a = b \<or> status_rank a < status_rank b"

text \<open>
  How one row may differ between an earlier and a later state: same key columns, a
  status that did not go back, a \<open>tx_hash\<close> that, once there, is the same, and that
  appears only on a row that is submitted or later.
\<close>

definition row_step :: "queue_entry \<Rightarrow> queue_entry \<Rightarrow> bool" where
  "row_step r r' \<longleftrightarrow>
     q_id r' = q_id r \<and> q_moltbook_id r' = q_moltbook_id r
     \<and> q_action_id r' = q_action_id r
     \<and> status_le (q_status r) (q_status r')
     \<and> (case q_tx_hash r of
          Some h \<Rightarrow> q_tx_hash r' = Some h
        | None \<Rightarrow> q_tx_hash r' = None \<or> 2 \<le> status_rank (q_status r'))"

definition queue_evolves :: "queue_entry list \<Rightarrow> queue_entry list \<Rightarrow> bool" where
  "queue_evolves q q' \<longleftrightarrow>
     length q \<le> length q' \<and> list_all2 row_step q (take (length q) q')"

text \<open>
  What holds of the queue in every state the operations reach from the empty one: the
  keys are distinct and not above the last key handed out, the pairs
  \<open>(moltbook_id, action_id)\<close> are distinct, every status is one of the five, and a
  pending row has no \<open>tx_hash\<close>.
\<close>

definition pair_of :: "queue_entry \<Rightarrow> string \<times> string" where
  "pair_of r = (q_moltbook_id r, q_action_id r)"

definition queue_inv :: "gw \<Rightarrow> bool" where
  "queue_inv s \<longleftrightarrow>
     distinct (map q_id (tx_queue s))
     \<and> list_all (\<lambda>r. q_id r \<le> tx_queue_seq s) (tx_queue s)
     \<and> distinct (map pair_of (tx_queue s))
     \<and> list_all (\<lambda>r. known_status (q_status r)) (tx_queue s)
     \<and> list_all (\<lambda>r. q_status r = ''pending'' \<longrightarrow> q_tx_hash r = None) (tx_queue s)"

section \<open>Sequences of broadcasts and sample data\<close>




definition good_chain :: chain where
  "good_chain = \<lparr>ch_account = Some ''0xRunner'', ch_fn_ok = True, ch_tx_count = Some 7,
     ch_gas_price = Some 100, ch_build_ok = True, ch_send_raw = Some ''0xhash''\<rparr>"

definition pending_enter :: queue_entry where
  "pending_enter = \<lparr>q_id = 1, q_action_id = ''a1'', q_moltbook_id = ''alice'',
     q_method = ''enterDungeon'', q_params = [JInt 0], q_status = ''pending'',
     q_tx_hash = None, q_error = None, q_created_at = 100, q_updated_at = 100\<rparr>"

definition submitted_enter :: queue_entry where
  "submitted_enter = pending_enter\<lparr>q_status := ''submitted'', q_tx_hash := Some ''0xabc'',
     q_updated_at := 105\<rparr>"

text \<open>A ledger whose session 7 is Active at turn 3, and a request for turn 5.\<close>

definition sample_ledger :: ledger where
  "sample_ledger =
     \<lparr>lg_sessions = (\<lambda>i. if i = 7
          then Some \<lparr>rs_dungeon_id = 0, rs_dm = ''0xDM'', rs_state = 2, rs_turn_number = 3,
                     rs_current_actor = ''0xP1'', rs_dm_epoch = 1\<rparr>
          else None),
      lg_epoch = Some \<lparr>re_current_epoch = 4, re_epoch_state = 0, re_grace_start_time = 0,
                       re_session_count = 8, re_active_session_count = 1\<rparr>\<rparr>"

definition stale_action :: submit_action_request where
  "stale_action = \<lparr>sa_session_id = 7, sa_turn_index = 5, sa_action = ''I attack'',
     sa_action_id = ''a1''\<rparr>"

section \<open>Rate limit: auxiliary notions\<close>

text \<open>
  \<open>queued_as a r\<close>: the response \<open>r\<close> reports a new pending entry for the action id
  \<open>a\<close>. \<open>rows_of\<close> are the queue rows of one caller. \<open>epoch_active\<close>: the epoch check
  of \<open>game_enter\<close> lets the request through. \<open>rate_limited\<close> is the exception that
  \<open>_check_rate_limit\<close> raises.
\<close>

fun queued_as :: "string \<Rightarrow> exn + response \<Rightarrow> bool" where
  "queued_as a (Inr (TxStatusResponse i a' st h e)) \<longleftrightarrow>
     a' = a \<and> st = ''pending'' \<and> h = None \<and> e = None"
| "queued_as a (Inr (JSONResponse c k msg kw)) \<longleftrightarrow> False"
| "queued_as a (Inl e) \<longleftrightarrow> False"

definition rows_of :: "string \<Rightarrow> gw \<Rightarrow> queue_entry list" where
  "rows_of moltbook_id s = filter (\<lambda>r. q_moltbook_id r = moltbook_id) (tx_queue s)"

definition epoch_active :: "ledger \<Rightarrow> bool" where
  "epoch_active lg \<longleftrightarrow> (case lg_epoch lg of None \<Rightarrow> True | Some e \<Rightarrow> re_epoch_state e = 0)"

definition rate_limited :: "exn + response" where
  "rate_limited = Inl (HTTPException 429 ''Rate limit exceeded (10 tx/hour)'')"

text \<open>Eleven attempts of one caller with distinct action ids, all inside one hour.\<close>

definition eleven_attempts :: "(int \<times> enter_dungeon_request) list" where
  "eleven_attempts =
     [(100, \<lparr>ed_dungeon_id = 0, ed_action_id = ''e0''\<rparr>),
      (200, \<lparr>ed_dungeon_id = 0, ed_action_id = ''e1''\<rparr>),
      (300, \<lparr>ed_dungeon_id = 1, ed_action_id = ''e2''\<rparr>),
      (400, \<lparr>ed_dungeon_id = 1, ed_action_id = ''e3''\<rparr>),
      (500, \<lparr>ed_dungeon_id = 2, ed_action_id = ''e4''\<rparr>),
      (600, \<lparr>ed_dungeon_id = 2, ed_action_id = ''e5''\<rparr>),
      (700, \<lparr>ed_dungeon_id = 3, ed_action_id = ''e6''\<rparr>),
      (800, \<lparr>ed_dungeon_id = 3, ed_action_id = ''e7''\<rparr>),
      (900, \<lparr>ed_dungeon_id = 4, ed_action_id = ''e8''\<rparr>),
      (1000, \<lparr>ed_dungeon_id = 4, ed_action_id = ''e9''\<rparr>),
      (3699, \<lparr>ed_dungeon_id = 5, ed_action_id = ''e10''\<rparr>)]"

text \<open>
  \<open>queue_step s s'\<close>: from \<open>s\<close> to \<open>s'\<close> the queue is unchanged or has one new pending row
  with the next key and a pair that was not there. \<open>mark_failed\<close> is what a worker
  cycle does to the rows whose keys it picked.
\<close>

definition queue_step :: "gw \<Rightarrow> gw \<Rightarrow> bool" where
  "queue_step s s' \<longleftrightarrow>
     (tx_queue s' = tx_queue s \<and> tx_queue_seq s' = tx_queue_seq s)
     \<or> (\<exists>row. tx_queue s' = tx_queue s @ [row] \<and> tx_queue_seq s' = tx_queue_seq s + 1
           \<and> q_id row = tx_queue_seq s + 1 \<and> q_status row = ''pending''
           \<and> q_tx_hash row = None \<and> pair_of row \<notin> set (map pair_of (tx_queue s)))"

definition mark_failed :: "int \<Rightarrow> int set \<Rightarrow> queue_entry \<Rightarrow> queue_entry" where
  "mark_failed now ids r =
     (if q_id r \<in> ids
      then r\<lparr>q_status := ''failed'', q_tx_hash := None,
             q_error := Some ''send_tx() got an unexpected keyword argument value'',
             q_updated_at := now\<rparr>
      else r)"



section \<open>RewardLedger: the stats as a fold of the event log\<close>

text \<open>
  \<open>stats_match s m\<close>: the five numeric columns of the subject's row are the sums and
  counts that the aggregate query of \<open>rebuild_agent_stats\<close> computes from the subject's
  events, and there is a row exactly when there is an event. \<open>is_award\<close> singles out
  the award operations.
\<close>

definition events_of :: "string \<Rightarrow> gw \<Rightarrow> xp_event list" where
  "events_of m s = filter (\<lambda>e. e_moltbook_id e = m) (xp_events s)"

definition stats_match :: "gw \<Rightarrow> string \<Rightarrow> bool" where
  "stats_match s m \<longleftrightarrow>
     (case agent_stats s m of
        None \<Rightarrow> events_of m s = []
      | Some r \<Rightarrow>
          events_of m s \<noteq> []
          \<and> total_xp r = sum_list (map e_xp_amount (events_of m s))
          \<and> lifetime_gold r = sum_list (map e_gold_amount (events_of m s))
          \<and> lifetime_sessions r = sql_count_type ''session_complete'' (events_of m s)
          \<and> lifetime_wins r = sql_count_type ''win'' (events_of m s)
          \<and> dm_sessions r = sql_count_type ''dm_hosted'' (events_of m s))"

fun is_award :: "op \<Rightarrow> bool" where
  "is_award (OpAward k m sid eid et xp gold src md) = True"
| "is_award (OpRequest lg m req) = False"
| "is_award (OpEnqueue a m meth p) = False"
| "is_award (OpWorker envs) = False"
| "is_award (OpRebuild m) = False"
| "is_award (OpSleep n) = False"

section \<open>RewardLedger: idempotent award\<close>


lemma xp_events_bump [simp]: "xp_events (bump_counters et m s) = xp_events s"
  by (simp add: bump_counters_def update_stats_def split: option.splits)

lemma xp_events_upsert [simp]: "xp_events (upsert_award m xp gold s) = xp_events s"
  by (simp add: upsert_award_def split: option.splits)

lemma xp_events_insert [simp]:
  "xp_events (insert_xp_event k m sid eid et xp gold src md s) =
     xp_events s @ [\<lparr>e_id = xp_events_seq s + 1, e_idempotency_key = k,
            e_moltbook_id = m, e_session_id = sid, e_epoch_id = eid,
            e_event_type = et, e_xp_amount = xp,
            e_gold_amount = gold, e_source = src, e_metadata = md,
            e_created_at = clock s\<rparr>]"
  by (simp add: insert_xp_event_def)






section \<open>RewardLedger: rebuild against the incremental path\<close>

text \<open>
  C3. After any history of awards, \<open>rebuild_agent_stats\<close> gives the row that the
  incremental path has built. The code at a first award of 600 XP to a new subject:
  the upsert inserts the row with the default level \<open>novice\<close>, and the rebuild of
  the same log writes \<open>adventurer\<close>; the five other columns agree.
\<close>

theorem rebuild_differs_after_first_award:
  "map_option stats_view
     (agent_stats (snd (award_xp ''k1'' ''alice'' 1 1 ''game_reward'' 600 0 ''turn_1'' None
                          empty_gw)) ''alice'')
     = Some (600, 0, Some 0, Some 0, Some 0, ''novice'')
   \<and> map_option stats_view
       (agent_stats (rebuild_agent_stats ''alice''
                       (snd (award_xp ''k1'' ''alice'' 1 1 ''game_reward'' 600 0 ''turn_1'' None
                               empty_gw))) ''alice'')
     = Some (600, 0, Some 0, Some 0, Some 0, ''adventurer'')"
  by (simp add: award_xp_def empty_gw_def insert_xp_event_def upsert_award_def
      bump_counters_def stats_view_def rebuild_agent_stats_def sql_count_type_def py_level_def)

section \<open>RewardLedger: level thresholds\<close>

lemma py_level_thresholds:
  "(py_level t = ''legend'' \<longleftrightarrow> 10000 \<le> t)
   \<and> (py_level t = ''veteran'' \<longleftrightarrow> 2000 \<le> t \<and> t < 10000)
   \<and> (py_level t = ''adventurer'' \<longleftrightarrow> 500 \<le> t \<and> t < 2000)
   \<and> (py_level t = ''novice'' \<longleftrightarrow> t < 500)"
  by (simp add: py_level_def)

lemma sql_level_py_level: "sql_level t = py_level t"
  by (simp add: sql_level_def py_level_def)

lemma rebuild_level:
  "map_option current_level (agent_stats (rebuild_agent_stats m s) m) =
     Some (py_level (sum_list (map e_xp_amount (filter (\<lambda>e. e_moltbook_id e = m) (xp_events s)))))"
  by (simp add: rebuild_agent_stats_def Let_def split: option.splits)

lemma upsert_existing_level:
  "agent_stats s m = Some r \<Longrightarrow>
   map_option (\<lambda>r'. (total_xp r', current_level r')) (agent_stats (upsert_award m xp gold s) m) =
     Some (total_xp r + xp, py_level (total_xp r + xp))"
  by (simp add: upsert_award_def sql_level_py_level)

text \<open>
  C10. The thresholds are 500, 2000 and 10000 in the rebuild and in the upsert of the
  incremental path. The code at a first award of 10000 XP to a new subject: both
  threshold functions give \<open>legend\<close> for the total, and the row that \<open>award_xp\<close>
  inserts holds \<open>novice\<close>, the default of the column.
\<close>

theorem first_award_level_default:
  "map_option (\<lambda>r. (total_xp r, current_level r))
     (agent_stats (snd (award_xp ''k9'' ''bob'' 3 1 ''game_reward'' 10000 0 ''turn_2'' None
                          empty_gw)) ''bob'')
     = Some (10000, ''novice'')
   \<and> py_level 10000 = ''legend'' \<and> sql_level 10000 = ''legend''"
  by (simp add: award_xp_def empty_gw_def insert_xp_event_def upsert_award_def
      bump_counters_def py_level_def sql_level_def)

section \<open>ReceiptReconciler: the polling window\<close>

lemma sleep_sleep: "sleep a (sleep b s) = sleep (b + a) s"
  by (simp add: sleep_def)

lemma poll_receipt_none:
  "(\<And>j. i \<le> j \<Longrightarrow> j < i + n \<Longrightarrow> rcs j = None) \<Longrightarrow>
   poll_receipt n i rcs tx h s =
     log_event ''warning'' ''tx_receipt_timeout'' (sleep (2 * int n) s)"
proof (induction n arbitrary: i s)
  case 0
  then show ?case by (simp add: sleep_def)
next
  case (Suc n)
  have here: "rcs i = None" using Suc.prems [of i] by simp
  have rest: "poll_receipt n (Suc i) rcs tx h (sleep 2 s) =
      log_event ''warning'' ''tx_receipt_timeout'' (sleep (2 * int n) (sleep 2 s))"
    using Suc.prems by (intro Suc.IH) simp_all
  show ?case by (simp add: here rest sleep_sleep algebra_simps)
qed

text \<open>
  C8. When none of the 15 polls, 2 time units apart, finds a receipt, the loop ends
  with the queue as it was, so a submitted entry stays submitted; no reward event is
  written, the stats are untouched, the function returns, and the one trace is the
  warning \<open>tx_receipt_timeout\<close> in the log, 30 time units later.
\<close>

theorem poll_exhausted_leaves_submitted:
  assumes none: "\<forall>j<15. rcs j = None"
    and sub: "get_tx (q_id tx) s = Some r" "q_status r = ''submitted''"
  shows "poll_receipt 15 0 rcs tx h s =
           log_event ''warning'' ''tx_receipt_timeout'' (sleep 30 s)
         \<and> tx_queue (poll_receipt 15 0 rcs tx h s) = tx_queue s
         \<and> get_tx (q_id tx) (poll_receipt 15 0 rcs tx h s) = Some r
         \<and> xp_events (poll_receipt 15 0 rcs tx h s) = xp_events s
         \<and> agent_stats (poll_receipt 15 0 rcs tx h s) = agent_stats s
         \<and> log (poll_receipt 15 0 rcs tx h s) = log s @ [(''warning'', ''tx_receipt_timeout'')]
         \<and> clock (poll_receipt 15 0 rcs tx h s) = clock s + 30"
proof -
  have eq: "poll_receipt 15 0 rcs tx h s =
      log_event ''warning'' ''tx_receipt_timeout'' (sleep (2 * int 15) s)"
    using none by (intro poll_receipt_none) simp
  show ?thesis
    using sub by (simp add: eq log_event_def sleep_def get_tx_def)
qed

theorem poll_exhausted_leaves_submitted_witness:
  "map_option q_status
     (get_tx 1 (poll_receipt 15 0 (\<lambda>j. None) submitted_enter ''0xabc''
                  (empty_gw\<lparr>tx_queue := [submitted_enter], tx_queue_seq := 1\<rparr>)))
     = Some ''submitted''
   \<and> xp_events (poll_receipt 15 0 (\<lambda>j. None) submitted_enter ''0xabc''
                  (empty_gw\<lparr>tx_queue := [submitted_enter], tx_queue_seq := 1\<rparr>)) = []
   \<and> log (poll_receipt 15 0 (\<lambda>j. None) submitted_enter ''0xabc''
             (empty_gw\<lparr>tx_queue := [submitted_enter], tx_queue_seq := 1\<rparr>))
       = [(''warning'', ''tx_receipt_timeout'')]"
proof -
  let ?s = "empty_gw\<lparr>tx_queue := [submitted_enter], tx_queue_seq := 1\<rparr>"
  have none: "\<forall>j<15. (\<lambda>j. None :: receipt option) j = None" by simp
  have sub: "get_tx (q_id submitted_enter) ?s = Some submitted_enter" "q_status submitted_enter = ''submitted''"
    by (simp_all add: get_tx_def submitted_enter_def pending_enter_def empty_gw_def)
  have id: "q_id submitted_enter = 1" by (simp add: submitted_enter_def pending_enter_def)
  show ?thesis
    using poll_exhausted_leaves_submitted [OF none sub, of "''0xabc''"]
    by (simp add: id empty_gw_def log_event_def sleep_def get_tx_def submitted_enter_def
        pending_enter_def)
qed

section \<open>SubmissionWorker: the broadcast of a pending entry\<close>

lemma send_tx_keyword:
  "send_tx ch method args ((k, v) # kw) s =
     (Inl (PyTypeError (''send_tx() got an unexpected keyword argument '' @ k)), s)"
  by (simp add: send_tx_def)

lemma process_single_tx_fails:
  "process_single_tx env tx s =
     update_tx_status (q_id tx) ''failed'' None
       (Some ''send_tx() got an unexpected keyword argument value'')
       (log_event ''error'' ''tx_failed'' (update_tx_status (q_id tx) ''submitting'' None None s))"
  by (simp add: process_single_tx_def Let_def send_tx_keyword)

lemma process_single_tx_sent:
  "sent (process_single_tx env tx s) = sent s \<and> nonce (process_single_tx env tx s) = nonce s"
  by (simp add: process_single_tx_fails update_tx_status_def log_event_def)

text \<open>
  C5. The worker broadcasts \<open>method(params)\<close> for a pending entry, with the entry bond
  as value for \<open>enterDungeon\<close>, and marks the entry submitted with its hash. The code
  at a pending \<open>enterDungeon\<close> entry, with a node that would accept the transaction:
  the call passes \<open>value\<close> as a keyword, \<open>send_tx\<close> raises, nothing is broadcast and
  the entry ends failed with no hash. Called without the keyword, \<open>send_tx\<close>
  broadcasts, and the transaction carries the value 0.
\<close>

theorem worker_enter_not_broadcast:
  "map_option (\<lambda>r. (q_status r, q_tx_hash r, q_error r))
     (get_tx 1 (process_single_tx
                  \<lparr>te_chain = good_chain, te_receipts = (\<lambda>j. Some \<lparr>rc_status = Some 1\<rparr>)\<rparr>
                  pending_enter
                  (empty_gw\<lparr>tx_queue := [pending_enter], tx_queue_seq := 1\<rparr>)))
     = Some (''failed'', None, Some ''send_tx() got an unexpected keyword argument value'')
   \<and> sent (process_single_tx
             \<lparr>te_chain = good_chain, te_receipts = (\<lambda>j. Some \<lparr>rc_status = Some 1\<rparr>)\<rparr>
             pending_enter
             (empty_gw\<lparr>tx_queue := [pending_enter], tx_queue_seq := 1\<rparr>)) = []
   \<and> fst (send_tx good_chain ''enterDungeon'' [JInt 0] [] empty_gw) = Inr ''0xhash''
   \<and> map tx_value (sent (snd (send_tx good_chain ''enterDungeon'' [JInt 0] [] empty_gw))) = [0]"
  by (simp add: process_single_tx_fails update_tx_status_def log_event_def get_tx_def
      pending_enter_def empty_gw_def send_tx_def get_nonce_def good_chain_def Let_def)

section \<open>NonceAllocator: the nonces of successful broadcasts\<close>


lemma get_nonce_cases:
  "get_nonce c s =
     (case nonce s of
        Some n \<Rightarrow> (Inr (n + 1), s\<lparr>nonce := Some (n + 1)\<rparr>)
      | None \<Rightarrow> (case c of Some v \<Rightarrow> (Inr v, s\<lparr>nonce := Some v\<rparr>)
                 | None \<Rightarrow> (Inl (Web3Exception ''get_transaction_count failed''), s)))"
  by (simp add: get_nonce_def split: option.splits)









section \<open>ActionValidator: turn mismatch\<close>

lemma validate_turn_mismatch:
  assumes "lg_sessions lg sid = Some raw" "rs_state raw = 2" "ti \<noteq> rs_turn_number raw"
  shows "validate_turn_index lg sid ti =
     Inl (error_response ''TURN_MISMATCH''
            (''Expected turn '' @ str_int (rs_turn_number raw) @ '', got '' @ str_int ti)
            409 [(''expected'', JInt (rs_turn_number raw)), (''got'', JInt ti)])"
  using assms by (simp add: validate_turn_index_def get_session_info_def)

lemma game_action_rejected_queue:
  "validate_turn_index lg (sa_session_id req) (sa_turn_index req) = Inl e \<Longrightarrow>
   snd (game_action lg m req s) = s"
  by (simp add: game_action_def split: sum.splits option.splits)

text \<open>
  C7. A turn submission whose turn index differs from the ledger's current turn of an
  Active session never creates a queue entry: \<open>game_action\<close> leaves the state as it
  was. When the caller is below the rate limit and the pair \<open>(caller, action id)\<close> is
  not yet queued, the answer is \<open>TURN_MISMATCH\<close> with \<open>expected\<close> the ledger's turn and
  \<open>got\<close> the declared one. The rate limit and the lookup of the pair come first.
\<close>

theorem turn_mismatch_rejected:
  assumes sess: "lg_sessions lg (sa_session_id req) = Some raw" "rs_state raw = 2"
    and diff: "sa_turn_index req \<noteq> rs_turn_number raw"
  shows "snd (game_action lg m req s) = s
       \<and> (count_recent_txs m 3600 s < max_tx_per_hour
            \<and> get_tx_by_action m (sa_action_id req) s = None
          \<longrightarrow> fst (game_action lg m req s) =
                Inr (error_response ''TURN_MISMATCH''
                       (''Expected turn '' @ str_int (rs_turn_number raw) @ '', got ''
                          @ str_int (sa_turn_index req))
                       409 [(''expected'', JInt (rs_turn_number raw)),
                            (''got'', JInt (sa_turn_index req))]))"
proof -
  note v = validate_turn_mismatch [OF sess diff]
  have a: "snd (game_action lg m req s) = s"
    using v by (rule game_action_rejected_queue)
  have b: "fst (game_action lg m req s) =
      Inr (error_response ''TURN_MISMATCH''
             (''Expected turn '' @ str_int (rs_turn_number raw) @ '', got ''
                @ str_int (sa_turn_index req))
             409 [(''expected'', JInt (rs_turn_number raw)),
                  (''got'', JInt (sa_turn_index req))])"
    if "count_recent_txs m 3600 s < max_tx_per_hour"
      "get_tx_by_action m (sa_action_id req) s = None"
    using that v
    by (simp add: game_action_def check_rate_limit_def check_idempotency_def)
  show ?thesis using a b by blast
qed

theorem turn_mismatch_rejected_witness:
  "game_action sample_ledger ''alice'' stale_action empty_gw =
     (Inr (JSONResponse 409 ''TURN_MISMATCH'' ''Expected turn 3, got 5''
             [(''expected'', JInt 3), (''got'', JInt 5)]), empty_gw)"
proof -
  let ?raw = "\<lparr>rs_dungeon_id = 0, rs_dm = ''0xDM'', rs_state = 2, rs_turn_number = 3,
                rs_current_actor = ''0xP1'', rs_dm_epoch = 1\<rparr>"
  have sess: "lg_sessions sample_ledger (sa_session_id stale_action) = Some ?raw"
      "rs_state ?raw = 2"
    by (simp_all add: sample_ledger_def stale_action_def)
  have diff: "sa_turn_index stale_action \<noteq> rs_turn_number ?raw"
    by (simp add: stale_action_def)
  have pre: "count_recent_txs ''alice'' 3600 empty_gw < max_tx_per_hour"
      "get_tx_by_action ''alice'' (sa_action_id stale_action) empty_gw = None"
    by (simp_all add: count_recent_txs_def max_tx_per_hour_def empty_gw_def
        get_tx_by_action_def)
  have s3: "str_int 3 = ''3''" and s5: "str_int 5 = ''5''"
    by (simp_all add: str_int_def str_nat.simps)
  from turn_mismatch_rejected [OF sess diff, of "''alice''" empty_gw] pre
  have "snd (game_action sample_ledger ''alice'' stale_action empty_gw) = empty_gw"
    and "fst (game_action sample_ledger ''alice'' stale_action empty_gw) =
      Inr (error_response ''TURN_MISMATCH''
             (''Expected turn '' @ str_int 3 @ '', got '' @ str_int 5)
             409 [(''expected'', JInt 3), (''got'', JInt 5)])"
    by (simp_all add: stale_action_def)
  then show ?thesis
    by (simp add: prod_eq_iff s3 s5 error_response_def)
qed

text \<open>
  The same request, turn 5 against the ledger's turn 3, when the caller's pair is
  already queued: \<open>validate_turn_index\<close> alone answers \<open>TURN_MISMATCH\<close>, and
  \<open>game_action\<close> answers with the queued entry.
\<close>

theorem turn_mismatch_duplicate_echo:
  "validate_turn_index sample_ledger 7 5 =
     Inl (JSONResponse 409 ''TURN_MISMATCH'' ''Expected turn 3, got 5''
            [(''expected'', JInt 3), (''got'', JInt 5)])
   \<and> game_action sample_ledger ''alice'' stale_action
       (empty_gw\<lparr>tx_queue := [pending_enter], tx_queue_seq := 1\<rparr>) =
     (Inr (TxStatusResponse 1 ''a1'' ''pending'' None None),
      empty_gw\<lparr>tx_queue := [pending_enter], tx_queue_seq := 1\<rparr>)"
  by (simp add: validate_turn_index_def get_session_info_def sample_ledger_def
      SESSION_STATES_def ZERO_ADDR_def error_response_def str_int_def str_nat.simps
      game_action_def check_rate_limit_def count_recent_txs_def max_tx_per_hour_def
      check_idempotency_def get_tx_by_action_def same_action_def pending_enter_def
      stale_action_def empty_gw_def)

section \<open>RateLimiter\<close>

lemma tx_queue_log_event [simp]: "tx_queue (log_event l e s) = tx_queue s"
  by (simp add: log_event_def)

lemma tx_queue_log_action [simp]:
  "tx_queue (snd (log_action a sid m t ep txt dj s)) = tx_queue s"
  by (simp add: log_action_def)

lemma tx_queue_seq_log_event [simp]: "tx_queue_seq (log_event l e s) = tx_queue_seq s"
  by (simp add: log_event_def)

lemma tx_queue_seq_log_action [simp]:
  "tx_queue_seq (snd (log_action a sid m t ep txt dj s)) = tx_queue_seq s"
  by (simp add: log_action_def)

lemma tx_queue_award [simp]:
  "tx_queue (snd (award_xp k m sid eid et xp gold src md s)) = tx_queue s"
  by (simp add: award_xp_def bump_counters_def update_stats_def upsert_award_def
      insert_xp_event_def split: option.splits)

lemma tx_queue_seq_award [simp]:
  "tx_queue_seq (snd (award_xp k m sid eid et xp gold src md s)) = tx_queue_seq s"
  by (simp add: award_xp_def bump_counters_def update_stats_def upsert_award_def
      insert_xp_event_def split: option.splits)

lemma check_rate_limit_iff:
  "check_rate_limit m s =
     (if 10 \<le> count_recent_txs m 3600 s
      then Inl (HTTPException 429 ''Rate limit exceeded (10 tx/hour)'') else Inr ())"
  by (simp add: check_rate_limit_def max_tx_per_hour_def)

lemma handle_rate_limited:
  "10 \<le> count_recent_txs m 3600 s \<Longrightarrow> handle lg m req s = (rate_limited, s)"
  by (cases req)
     (simp_all add: game_enter_def game_action_def game_dm_def game_accept_dm_def
        check_rate_limit_iff rate_limited_def)

lemma enter_queue_not_429: "fst (enter_queue ei m r s) \<noteq> Inl (HTTPException 429 d)"
  by (simp add: enter_queue_def enqueue_tx_def Let_def split: option.splits)

lemma handle_not_rate_limited:
  "count_recent_txs m 3600 s < 10 \<Longrightarrow> fst (handle lg m req s) \<noteq> Inl (HTTPException 429 d)"
proof (cases req)
  case (Enter r)
  assume "count_recent_txs m 3600 s < 10"
  then show ?thesis
    by (simp add: Enter game_enter_def check_rate_limit_iff enter_queue_not_429
        split: option.splits)
next
  case (Action r)
  assume "count_recent_txs m 3600 s < 10"
  then show ?thesis
    by (simp add: Action game_action_def check_rate_limit_iff enqueue_tx_def Let_def
        split: option.splits sum.splits)
next
  case (DM r)
  assume "count_recent_txs m 3600 s < 10"
  then show ?thesis
    by (simp add: DM game_dm_def check_rate_limit_iff enqueue_tx_def Let_def
        split: option.splits sum.splits)
next
  case (AcceptDM r)
  assume "count_recent_txs m 3600 s < 10"
  then show ?thesis
    by (simp add: AcceptDM game_accept_dm_def check_rate_limit_iff enqueue_tx_def Let_def
        split: option.splits sum.splits)
qed

lemma rows_of_clock [simp]: "rows_of m (s\<lparr>clock := t\<rparr>) = rows_of m s"
  by (simp add: rows_of_def)

lemma count_recent_all:
  assumes "\<forall>r\<in>set (rows_of m s). clock s - 3600 < q_created_at r"
  shows "count_recent_txs m 3600 s = int (length (rows_of m s))"
proof -
  have "filter (\<lambda>r. q_moltbook_id r = m \<and> q_created_at r > clock s - 3600) (tx_queue s)
      = filter (\<lambda>r. q_moltbook_id r = m) (tx_queue s)"
    using assms by (intro filter_cong) (auto simp: rows_of_def)
  then show ?thesis by (simp add: count_recent_txs_def rows_of_def)
qed

lemma game_enter_queued:
  assumes cnt: "count_recent_txs m 3600 s < 10"
    and ep: "epoch_active lg"
    and new: "\<forall>r\<in>set (rows_of m s). q_action_id r \<noteq> ed_action_id req"
  shows "\<exists>s1 row. game_enter lg m req s =
           (Inr (TxStatusResponse (tx_queue_seq s + 1) (ed_action_id req) ''pending'' None None), s1)
         \<and> tx_queue s1 = tx_queue s @ [row] \<and> q_moltbook_id row = m
         \<and> q_action_id row = ed_action_id req \<and> q_created_at row = clock s"
proof -
  have none: "\<not> list_ex (same_action m (ed_action_id req)) (tx_queue s)"
    using new by (auto simp: list_ex_iff same_action_def rows_of_def)
  then have find: "find (same_action m (ed_action_id req)) (tx_queue s) = None"
    by (simp add: find_None_iff list_ex_iff)
  have q: "\<exists>s1 row. enter_queue ei m req s =
           (Inr (TxStatusResponse (tx_queue_seq s + 1) (ed_action_id req) ''pending'' None None), s1)
         \<and> tx_queue s1 = tx_queue s @ [row] \<and> q_moltbook_id row = m
         \<and> q_action_id row = ed_action_id req \<and> q_created_at row = clock s" for ei
    using none find
    by (simp add: enter_queue_def check_idempotency_def get_tx_by_action_def enqueue_tx_def
        Let_def)
  show ?thesis
    using cnt ep q
    by (auto simp: game_enter_def check_rate_limit_iff epoch_active_def get_epoch_info_def
        split: option.splits)
qed

lemma enter_attempts_all_queued:
  assumes "\<forall>r\<in>set (rows_of m s). hi - 3600 < q_created_at r
             \<and> q_action_id r \<notin> set (map (\<lambda>a. ed_action_id (snd a)) atts)"
    and "\<forall>t\<in>set (map fst atts). hi - 3600 < t \<and> t \<le> hi"
    and "distinct (map (\<lambda>a. ed_action_id (snd a)) atts)"
    and "length (rows_of m s) + length atts \<le> 10"
    and "epoch_active lg"
  shows "\<exists>rs s'. enter_attempts lg m atts s = (rs, s')
           \<and> list_all2 (\<lambda>att r. queued_as (ed_action_id (snd att)) r) atts rs
           \<and> length (rows_of m s') = length (rows_of m s) + length atts
           \<and> (\<forall>r\<in>set (rows_of m s'). hi - 3600 < q_created_at r)"
  using assms
proof (induction atts arbitrary: s)
  case Nil
  then show ?case by simp
next
  case (Cons att atts)
  obtain t req where att: "att = (t, req)" by (cases att)
  let ?st = "s\<lparr>clock := t\<rparr>"
  have t_hi: "t \<le> hi" and t_lo: "hi - 3600 < t" using Cons.prems(2) att by simp_all
  have recent: "\<forall>r\<in>set (rows_of m ?st). clock ?st - 3600 < q_created_at r"
    using Cons.prems(1) t_hi by auto
  have cnt: "count_recent_txs m 3600 ?st < 10"
    using count_recent_all [OF recent] Cons.prems(4) by simp
  have new: "\<forall>r\<in>set (rows_of m ?st). q_action_id r \<noteq> ed_action_id req"
    using Cons.prems(1) att by auto
  from game_enter_queued [OF cnt Cons.prems(5) new]
  obtain s1 row where
    ge: "game_enter lg m req ?st =
           (Inr (TxStatusResponse (tx_queue_seq ?st + 1) (ed_action_id req) ''pending'' None None), s1)"
    and q1: "tx_queue s1 = tx_queue ?st @ [row]" and rm: "q_moltbook_id row = m"
    and ra: "q_action_id row = ed_action_id req" and rc: "q_created_at row = clock ?st"
    by blast
  have rows1: "rows_of m s1 = rows_of m s @ [row]"
    using q1 rm by (simp add: rows_of_def)
  have p1: "\<forall>r\<in>set (rows_of m s1). hi - 3600 < q_created_at r
             \<and> q_action_id r \<notin> set (map (\<lambda>a. ed_action_id (snd a)) atts)"
    using Cons.prems(1) Cons.prems(3) t_lo ra rc by (auto simp: rows1 att)
  have p2: "\<forall>t\<in>set (map fst atts). hi - 3600 < t \<and> t \<le> hi"
    using Cons.prems(2) by simp
  have p3: "distinct (map (\<lambda>a. ed_action_id (snd a)) atts)" using Cons.prems(3) by simp
  have p4: "length (rows_of m s1) + length atts \<le> 10"
    using Cons.prems(4) by (simp add: rows1)
  from Cons.IH [OF p1 p2 p3 p4 Cons.prems(5)]
  obtain rs s' where
    ih: "enter_attempts lg m atts s1 = (rs, s')"
      "list_all2 (\<lambda>att r. queued_as (ed_action_id (snd att)) r) atts rs"
      "length (rows_of m s') = length (rows_of m s1) + length atts"
      "\<forall>r\<in>set (rows_of m s'). hi - 3600 < q_created_at r"
    by blast
  show ?case
    using ih by (simp add: att ge rows1)
qed

lemma enter_attempts_append:
  "enter_attempts lg m (xs @ ys) s =
     (case enter_attempts lg m xs s of
        (rs, s1) \<Rightarrow> (case enter_attempts lg m ys s1 of (rs', s2) \<Rightarrow> (rs @ rs', s2)))"
  by (induction xs arbitrary: s) (auto split: prod.splits)

lemma eleventh_enter_rejected:
  assumes fresh: "rows_of m s = []"
    and len: "length atts = 11"
    and ids: "distinct (map (\<lambda>a. ed_action_id (snd a)) atts)"
    and hour: "\<forall>t\<in>set (map fst atts). hi - 3600 < t \<and> t \<le> hi"
    and ep: "epoch_active lg"
  shows "case enter_attempts lg m atts s of
           (rs, s') \<Rightarrow>
             length rs = 11
             \<and> list_all2 (\<lambda>att r. queued_as (ed_action_id (snd att)) r) (take 10 atts) (take 10 rs)
             \<and> rs ! 10 = rate_limited
             \<and> length (rows_of m s') = 10"
proof -
  obtain xs t req where atts: "atts = xs @ [(t, req)]" and lx: "length xs = 10"
  proof -
    have "atts = take 10 atts @ [atts ! 10]"
      using len by (metis Suc_eq_plus1 lessI numeral_plus_one semiring_norm(5) semiring_norm(8) take_Suc_conv_app_nth take_all le_refl)
    moreover have "length (take 10 atts) = 10" using len by simp
    ultimately show ?thesis using that by (cases "atts ! 10") metis
  qed
  have a1: "\<forall>r\<in>set (rows_of m s). hi - 3600 < q_created_at r
             \<and> q_action_id r \<notin> set (map (\<lambda>a. ed_action_id (snd a)) xs)"
    using fresh by simp
  have a2: "\<forall>t\<in>set (map fst xs). hi - 3600 < t \<and> t \<le> hi" using hour atts by simp
  have a3: "distinct (map (\<lambda>a. ed_action_id (snd a)) xs)" using ids atts by simp
  have a4: "length (rows_of m s) + length xs \<le> 10" using fresh lx by simp
  from enter_attempts_all_queued [OF a1 a2 a3 a4 ep]
  obtain rs s1 where
    first: "enter_attempts lg m xs s = (rs, s1)"
      "list_all2 (\<lambda>att r. queued_as (ed_action_id (snd att)) r) xs rs"
      "length (rows_of m s1) = length (rows_of m s) + length xs"
      "\<forall>r\<in>set (rows_of m s1). hi - 3600 < q_created_at r"
    by blast
  have lrs: "length rs = 10" using first(2) lx by (simp add: list_all2_lengthD [symmetric])
  have ten: "length (rows_of m s1) = 10" using first(3) fresh lx by simp
  let ?st = "s1\<lparr>clock := t\<rparr>"
  have t_hi: "t \<le> hi" using hour atts by simp
  have recent: "\<forall>r\<in>set (rows_of m ?st). clock ?st - 3600 < q_created_at r"
    using first(4) t_hi by auto
  have cnt: "10 \<le> count_recent_txs m 3600 ?st"
    using count_recent_all [OF recent] ten by simp
  have last: "game_enter lg m req ?st = (rate_limited, ?st)"
    using handle_rate_limited [OF cnt, of lg "Enter req"] by simp
  have all: "enter_attempts lg m atts s = (rs @ [rate_limited], ?st)"
    by (simp add: atts enter_attempts_append first(1) last)
  show ?thesis
    unfolding all using first(2) lrs lx ten by (simp add: atts nth_append)
qed


text \<open>
  C9. A request of a caller is refused with the rate-limit exception (HTTP 429) exactly
  when the caller has at least 10 queue rows created within the trailing hour; the
  check is the first step of every handler, so a refused request leaves the state, and
  with it the queue, as it was. Eleven attempts to enter with distinct action ids, made
  inside one hour by a caller with no earlier rows while the epoch is active: the first
  ten are queued as pending, the eleventh is refused, and the caller has ten rows.
\<close>

theorem rate_limit_enforced:
  "((\<exists>d. fst (handle lg m req s) = Inl (HTTPException 429 d))
      \<longleftrightarrow> 10 \<le> count_recent_txs m 3600 s)
   \<and> count_recent_txs m 3600 s =
       int (length (filter (\<lambda>r. q_moltbook_id r = m \<and> clock s - 3600 < q_created_at r)
                           (tx_queue s)))
   \<and> (10 \<le> count_recent_txs m 3600 s \<longrightarrow> handle lg m req s = (rate_limited, s))
   \<and> (rows_of m s0 = [] \<and> length atts = 11
        \<and> distinct (map (\<lambda>a. ed_action_id (snd a)) atts)
        \<and> (\<forall>t\<in>set (map fst atts). hi - 3600 < t \<and> t \<le> hi)
        \<and> epoch_active lg
      \<longrightarrow> (case enter_attempts lg m atts s0 of
             (rs, s') \<Rightarrow>
               length rs = 11
               \<and> list_all2 (\<lambda>att r. queued_as (ed_action_id (snd att)) r)
                    (take 10 atts) (take 10 rs)
               \<and> rs ! 10 = rate_limited
               \<and> length (rows_of m s') = 10))"
proof -
  have a: "(\<exists>d. fst (handle lg m req s) = Inl (HTTPException 429 d))
      \<longleftrightarrow> 10 \<le> count_recent_txs m 3600 s"
  proof (cases "10 \<le> count_recent_txs m 3600 s")
    case True
    then show ?thesis
      using handle_rate_limited [OF True, of lg req] by (simp add: rate_limited_def)
  next
    case False
    then show ?thesis
      using handle_not_rate_limited [of m s lg req] by auto
  qed
  have b: "count_recent_txs m 3600 s =
       int (length (filter (\<lambda>r. q_moltbook_id r = m \<and> clock s - 3600 < q_created_at r)
                           (tx_queue s)))"
    by (simp add: count_recent_txs_def)
  have c: "10 \<le> count_recent_txs m 3600 s \<longrightarrow> handle lg m req s = (rate_limited, s)"
    by (rule impI) (rule handle_rate_limited)
  have d: "rows_of m s0 = [] \<and> length atts = 11
        \<and> distinct (map (\<lambda>a. ed_action_id (snd a)) atts)
        \<and> (\<forall>t\<in>set (map fst atts). hi - 3600 < t \<and> t \<le> hi)
        \<and> epoch_active lg
      \<longrightarrow> (case enter_attempts lg m atts s0 of
             (rs, s') \<Rightarrow>
               length rs = 11
               \<and> list_all2 (\<lambda>att r. queued_as (ed_action_id (snd att)) r)
                    (take 10 atts) (take 10 rs)
               \<and> rs ! 10 = rate_limited
               \<and> length (rows_of m s') = 10)"
  proof (intro impI, elim conjE)
    assume "rows_of m s0 = []" "length atts = 11"
      "distinct (map (\<lambda>a. ed_action_id (snd a)) atts)"
      "\<forall>t\<in>set (map fst atts). hi - 3600 < t \<and> t \<le> hi" "epoch_active lg"
    then show "case enter_attempts lg m atts s0 of
             (rs, s') \<Rightarrow>
               length rs = 11
               \<and> list_all2 (\<lambda>att r. queued_as (ed_action_id (snd att)) r)
                    (take 10 atts) (take 10 rs)
               \<and> rs ! 10 = rate_limited
               \<and> length (rows_of m s') = 10"
      by (rule eleventh_enter_rejected)
  qed
  show ?thesis
    by (rule conjI [OF a conjI [OF b conjI [OF c d]]])
qed

theorem rate_limit_enforced_witness:
  "rows_of ''alice'' empty_gw = [] \<and> length eleven_attempts = 11
   \<and> (case enter_attempts sample_ledger ''alice'' eleven_attempts empty_gw of
        (rs, s') \<Rightarrow>
          length rs = 11
          \<and> list_all2 (\<lambda>att r. queued_as (ed_action_id (snd att)) r)
               (take 10 eleven_attempts) (take 10 rs)
          \<and> rs ! 10 = rate_limited
          \<and> length (rows_of ''alice'' s') = 10)"
proof -
  have fresh: "rows_of ''alice'' empty_gw = []"
    by (simp add: rows_of_def empty_gw_def)
  have len: "length eleven_attempts = 11" by (simp add: eleven_attempts_def)
  have ids: "distinct (map (\<lambda>a. ed_action_id (snd a)) eleven_attempts)"
    by (simp add: eleven_attempts_def)
  have hour: "\<forall>t\<in>set (map fst eleven_attempts). 3699 - 3600 < t \<and> t \<le> 3699"
    by (simp add: eleven_attempts_def)
  have ep: "epoch_active sample_ledger"
    by (simp add: epoch_active_def sample_ledger_def)
  note scenario = rate_limit_enforced [of sample_ledger "''alice''"
      "Enter \<lparr>ed_dungeon_id = 0, ed_action_id = ''e0''\<rparr>" empty_gw empty_gw
      eleven_attempts 3699, THEN conjunct2, THEN conjunct2, THEN conjunct2]
  have hyp: "rows_of ''alice'' empty_gw = [] \<and> length eleven_attempts = 11
        \<and> distinct (map (\<lambda>a. ed_action_id (snd a)) eleven_attempts)
        \<and> (\<forall>t\<in>set (map fst eleven_attempts). 3699 - 3600 < t \<and> t \<le> 3699)
        \<and> epoch_active sample_ledger"
    using fresh len ids hour ep by (intro conjI)
  show ?thesis
    by (rule conjI [OF fresh conjI [OF len mp [OF scenario hyp]]])
qed

section \<open>TransactionQueue: status lifecycle\<close>

lemma status_le_refl [simp]: "status_le a a"
  by (simp add: status_le_def)

lemma status_le_trans: "status_le a b \<Longrightarrow> status_le b c \<Longrightarrow> status_le a c"
  by (auto simp: status_le_def)

lemma status_le_rank: "status_le a b \<Longrightarrow> status_rank a \<le> status_rank b"
  by (auto simp: status_le_def)

lemma row_step_refl [simp]: "row_step r r"
  by (simp add: row_step_def split: option.splits)

lemma row_step_trans: "row_step a b \<Longrightarrow> row_step b c \<Longrightarrow> row_step a c"
  unfolding row_step_def
  by (auto split: option.splits dest: status_le_rank intro: status_le_trans)

lemma queue_evolves_refl [simp]: "queue_evolves q q"
  by (simp add: queue_evolves_def list_all2_conv_all_nth)

lemma queue_evolves_trans:
  assumes "queue_evolves a b" "queue_evolves b c"
  shows "queue_evolves a c"
proof -
  have len: "length a \<le> length b" "length b \<le> length c"
    using assms by (simp_all add: queue_evolves_def)
  have ab: "\<And>i. i < length a \<Longrightarrow> row_step (a ! i) (b ! i)"
    using assms(1) by (simp add: queue_evolves_def list_all2_conv_all_nth)
  have bc: "\<And>i. i < length b \<Longrightarrow> row_step (b ! i) (c ! i)"
    using assms(2) by (simp add: queue_evolves_def list_all2_conv_all_nth)
  have "\<And>i. i < length a \<Longrightarrow> row_step (a ! i) (c ! i)"
    using ab bc len by (meson row_step_trans less_le_trans)
  then show ?thesis
    using len by (simp add: queue_evolves_def list_all2_conv_all_nth)
qed

lemma queue_evolves_append [simp]: "queue_evolves q (q @ rs)"
  by (simp add: queue_evolves_def list_all2_conv_all_nth)

lemma queue_evolves_map:
  "(\<And>r. r \<in> set q \<Longrightarrow> row_step r (f r)) \<Longrightarrow> queue_evolves q (map f q)"
  by (simp add: queue_evolves_def list_all2_conv_all_nth)

lemma queue_step_evolves: "queue_step s s' \<Longrightarrow> queue_evolves (tx_queue s) (tx_queue s')"
  by (auto simp: queue_step_def)

lemma queue_step_inv:
  assumes "queue_step s s'" "queue_inv s"
  shows "queue_inv s'"
proof -
  consider (same) "tx_queue s' = tx_queue s" "tx_queue_seq s' = tx_queue_seq s"
    | (new) row where "tx_queue s' = tx_queue s @ [row]"
        "tx_queue_seq s' = tx_queue_seq s + 1" "q_id row = tx_queue_seq s + 1"
        "q_status row = ''pending''" "q_tx_hash row = None"
        "pair_of row \<notin> set (map pair_of (tx_queue s))"
    using assms(1) by (auto simp: queue_step_def)
  then show ?thesis
  proof cases
    case same
    then show ?thesis using assms(2) by (simp add: queue_inv_def)
  next
    case new
    have below: "\<forall>r\<in>set (tx_queue s). q_id r \<le> tx_queue_seq s"
      using assms(2) by (simp add: queue_inv_def list_all_iff)
    then have fresh: "q_id row \<notin> set (map q_id (tx_queue s))"
      using new(3) by fastforce
    have below': "\<forall>r\<in>set (tx_queue s'). q_id r \<le> tx_queue_seq s'"
      using below new(1,2,3) by fastforce
    show ?thesis
      using assms(2) new fresh below'
      by (simp add: queue_inv_def list_all_iff known_status_def)
  qed
qed

lemma queue_step_refl [simp]: "queue_step s s"
  by (simp add: queue_step_def)

lemma enqueue_tx_step: "queue_step s (snd (enqueue_tx a m meth p s))"
  by (auto simp: enqueue_tx_def queue_step_def Let_def pair_of_def list_ex_iff same_action_def)

lemma queue_step_cong:
  "tx_queue t = tx_queue s' \<Longrightarrow> tx_queue_seq t = tx_queue_seq s' \<Longrightarrow> queue_step s s'
   \<Longrightarrow> queue_step s t"
  by (simp add: queue_step_def)

lemma enter_queue_step: "queue_step s (snd (enter_queue ei m r s))"
proof (cases "check_idempotency m (ed_action_id r) s")
  case (Some x)
  then show ?thesis by (simp add: enter_queue_def)
next
  case None
  obtain res s1 where e: "enqueue_tx (ed_action_id r) m ''enterDungeon'' [JInt (ed_dungeon_id r)] s = (res, s1)"
    by (cases "enqueue_tx (ed_action_id r) m ''enterDungeon'' [JInt (ed_dungeon_id r)] s")
  have st: "queue_step s s1"
    using enqueue_tx_step [of s "ed_action_id r" m "''enterDungeon''" "[JInt (ed_dungeon_id r)]"] e
    by simp
  show ?thesis
    using st by (cases res) (auto simp: enter_queue_def None e Let_def elim: queue_step_cong [rotated 2])
qed


lemma enqueue_tx_step': "enqueue_tx a m meth p s = (res, s1) \<Longrightarrow> queue_step s s1"
  using enqueue_tx_step [of s a m meth p] by simp

lemma queue_step_logged:
  "queue_step s s1 \<Longrightarrow>
   queue_step s (snd (log_action a sid m t ep txt dj (log_event l e s1)))"
  by (erule queue_step_cong [rotated 2]) simp_all

lemma queue_step_awarded:
  "queue_step s s1 \<Longrightarrow> queue_step s (snd (award_xp k m sid eid et xp gold src md s1))"
  by (erule queue_step_cong [rotated 2]) simp_all

lemma game_enter_step: "queue_step s (snd (game_enter lg m r s))"
  by (simp add: game_enter_def enter_queue_step split: sum.splits option.splits)

lemma game_action_step: "queue_step s (snd (game_action lg m r s))"
  by (auto simp: game_action_def Let_def split: sum.splits option.splits prod.splits
      dest!: enqueue_tx_step' intro!: queue_step_logged)

lemma game_dm_step: "queue_step s (snd (game_dm lg m r s))"
  by (auto simp: game_dm_def Let_def split: sum.splits option.splits prod.splits
      dest!: enqueue_tx_step' intro!: queue_step_logged)

lemma game_accept_dm_step: "queue_step s (snd (game_accept_dm lg m r s))"
  by (auto simp: game_accept_dm_def Let_def split: sum.splits option.splits prod.splits
      dest!: enqueue_tx_step' intro!: queue_step_logged queue_step_awarded)

lemma handle_step: "queue_step s (snd (handle lg m req s))"
  by (cases req) (simp_all add: game_enter_step game_action_step game_dm_step game_accept_dm_step)

lemma process_single_tx_queue:
  "tx_queue (process_single_tx env tx s) = map (mark_failed (clock s) {q_id tx}) (tx_queue s)
   \<and> tx_queue_seq (process_single_tx env tx s) = tx_queue_seq s
   \<and> clock (process_single_tx env tx s) = clock s"
  by (simp add: process_single_tx_fails update_tx_status_def log_event_def mark_failed_def
      comp_def)

lemma mark_failed_twice:
  "mark_failed now A (mark_failed now B r) = mark_failed now (A \<union> B) r"
  by (simp add: mark_failed_def)

lemma worker_fold_queue:
  "tx_queue (foldl (\<lambda>st tx. process_single_tx (envs (q_id tx)) tx st) s txs) =
     map (mark_failed (clock s) (q_id ` set txs)) (tx_queue s)
   \<and> tx_queue_seq (foldl (\<lambda>st tx. process_single_tx (envs (q_id tx)) tx st) s txs) = tx_queue_seq s
   \<and> clock (foldl (\<lambda>st tx. process_single_tx (envs (q_id tx)) tx st) s txs) = clock s"
proof (induction txs arbitrary: s)
  case Nil
  have "map (mark_failed (clock s) {}) (tx_queue s) = tx_queue s"
    by (simp add: mark_failed_def map_idI)
  then show ?case by simp
next
  case (Cons tx txs)
  let ?s1 = "process_single_tx (envs (q_id tx)) tx s"
  have "map (mark_failed (clock s) (q_id ` set txs)) (map (mark_failed (clock s) {q_id tx}) (tx_queue s))
      = map (mark_failed (clock s) (q_id ` set (tx # txs))) (tx_queue s)"
    by (simp add: mark_failed_twice comp_def Un_commute insert_is_Un [symmetric])
  then show ?case
    using Cons.IH [of ?s1] by (simp add: process_single_tx_queue)
qed

lemma pending_rows:
  "tx \<in> set (get_pending_txs n s) \<Longrightarrow> tx \<in> set (tx_queue s) \<and> q_status tx = ''pending''"
  by (auto simp: get_pending_txs_def dest: in_set_takeD)

lemma worker_row_step:
  assumes inv: "queue_inv s" and r: "r \<in> set (tx_queue s)"
  shows "row_step r (mark_failed now (q_id ` set (get_pending_txs n s)) r)
       \<and> (mark_failed now (q_id ` set (get_pending_txs n s)) r = r
          \<or> q_status (mark_failed now (q_id ` set (get_pending_txs n s)) r) = ''failed'')"
proof (cases "q_id r \<in> q_id ` set (get_pending_txs n s)")
  case False
  then show ?thesis by (simp add: mark_failed_def)
next
  case True
  then obtain tx where tx: "tx \<in> set (get_pending_txs n s)" "q_id tx = q_id r" by auto
  have "tx \<in> set (tx_queue s)" "q_status tx = ''pending''"
    using pending_rows [OF tx(1)] by simp_all
  moreover have "inj_on q_id (set (tx_queue s))"
    using inv by (simp add: queue_inv_def distinct_map)
  ultimately have pend: "q_status r = ''pending''"
    using r tx(2) by (auto dest: inj_onD)
  then have "q_tx_hash r = None"
    using inv r by (auto simp: queue_inv_def list_all_iff)
  then show ?thesis
    using pend True
    by (simp add: mark_failed_def row_step_def status_le_def status_rank_def)
qed

lemma mark_failed_keys [simp]:
  "q_id (mark_failed now A r) = q_id r" "pair_of (mark_failed now A r) = pair_of r"
  by (simp_all add: mark_failed_def pair_of_def)

lemma worker_evolves:
  assumes "queue_inv s"
  shows "queue_evolves (tx_queue s) (tx_queue (process_pending_txs envs s))"
  unfolding process_pending_txs_def
  using worker_row_step [OF assms]
  by (simp add: worker_fold_queue queue_evolves_map)

lemma worker_inv:
  assumes inv: "queue_inv s"
  shows "queue_inv (process_pending_txs envs s)"
proof -
  let ?f = "mark_failed (clock s) (q_id ` set (get_pending_txs 5 s))"
  have q: "tx_queue (process_pending_txs envs s) = map ?f (tx_queue s)"
    and sq: "tx_queue_seq (process_pending_txs envs s) = tx_queue_seq s"
    by (simp_all add: process_pending_txs_def worker_fold_queue)
  have rows: "\<forall>r\<in>set (tx_queue s). ?f r = r \<or> q_status (?f r) = ''failed''"
    using worker_row_step [OF inv] by blast
  have known: "\<forall>r\<in>set (tx_queue s). known_status (q_status (?f r))"
  proof
    fix r assume r: "r \<in> set (tx_queue s)"
    have k: "known_status (q_status r)"
      using inv r by (simp add: queue_inv_def list_all_iff)
    from rows r have "?f r = r \<or> q_status (?f r) = ''failed''" by blast
    then show "known_status (q_status (?f r))"
    proof
      assume "?f r = r"
      then show ?thesis using k by simp
    next
      assume "q_status (?f r) = ''failed''"
      then show ?thesis by (simp add: known_status_def)
    qed
  qed
  have pend: "\<forall>r\<in>set (tx_queue s). q_status (?f r) = ''pending'' \<longrightarrow> q_tx_hash (?f r) = None"
  proof
    fix r assume r: "r \<in> set (tx_queue s)"
    have k: "q_status r = ''pending'' \<longrightarrow> q_tx_hash r = None"
      using inv r by (simp add: queue_inv_def list_all_iff)
    from rows r have "?f r = r \<or> q_status (?f r) = ''failed''" by blast
    then show "q_status (?f r) = ''pending'' \<longrightarrow> q_tx_hash (?f r) = None"
    proof
      assume "?f r = r"
      then show ?thesis using k by simp
    next
      assume "q_status (?f r) = ''failed''"
      then show ?thesis by simp
    qed
  qed
  show ?thesis
    using inv known pend
    by (simp add: queue_inv_def q sq list_all_iff comp_def)
qed

lemma apply_op_inv: "queue_inv s \<Longrightarrow> queue_inv (apply_op op s)"
proof (cases op)
  case (OpRequest lg m req)
  assume "queue_inv s"
  then show ?thesis using handle_step [of s lg m req] by (simp add: OpRequest queue_step_inv)
next
  case (OpEnqueue a m meth p)
  assume "queue_inv s"
  then show ?thesis using enqueue_tx_step [of s a m meth p] by (simp add: OpEnqueue queue_step_inv)
next
  case (OpWorker envs)
  assume "queue_inv s"
  then show ?thesis by (simp add: OpWorker worker_inv)
next
  case (OpAward k m sid eid et xp gold src md)
  assume "queue_inv s"
  then show ?thesis by (simp add: OpAward queue_inv_def)
next
  case (OpRebuild m)
  assume "queue_inv s"
  then show ?thesis
    by (simp add: OpRebuild queue_inv_def rebuild_agent_stats_def Let_def split: option.splits)
next
  case (OpSleep n)
  assume "queue_inv s"
  then show ?thesis by (simp add: OpSleep queue_inv_def sleep_def)
qed

lemma apply_op_evolves:
  "queue_inv s \<Longrightarrow> queue_evolves (tx_queue s) (tx_queue (apply_op op s))"
proof (cases op)
  case (OpRequest lg m req)
  show ?thesis using handle_step [of s lg m req] by (simp add: OpRequest queue_step_evolves)
next
  case (OpEnqueue a m meth p)
  show ?thesis using enqueue_tx_step [of s a m meth p] by (simp add: OpEnqueue queue_step_evolves)
next
  case (OpWorker envs)
  assume "queue_inv s"
  then show ?thesis by (simp add: OpWorker worker_evolves)
next
  case (OpAward k m sid eid et xp gold src md)
  show ?thesis by (simp add: OpAward)
next
  case (OpRebuild m)
  show ?thesis
    by (simp add: OpRebuild rebuild_agent_stats_def Let_def split: option.splits)
next
  case (OpSleep n)
  show ?thesis by (simp add: OpSleep sleep_def)
qed

lemma run_inv_evolves:
  "queue_inv s \<Longrightarrow> queue_inv (run ops s) \<and> queue_evolves (tx_queue s) (tx_queue (run ops s))"
proof (induction ops arbitrary: s)
  case Nil
  then show ?case by (simp add: run_def)
next
  case (Cons op ops)
  have i1: "queue_inv (apply_op op s)" using Cons.prems by (rule apply_op_inv)
  have e1: "queue_evolves (tx_queue s) (tx_queue (apply_op op s))"
    using Cons.prems by (rule apply_op_evolves)
  have r: "run (op # ops) s = run ops (apply_op op s)" by (simp add: run_def)
  show ?case
    using Cons.IH [OF i1] e1 by (auto simp: r intro: queue_evolves_trans)
qed

text \<open>
  C4. Over every sequence of requests, bare inserts, worker cycles, awards, rebuilds
  and pauses, a queue row keeps its key; its status never goes back along pending,
  submitting, submitted, then mined or failed; its \<open>tx_hash\<close>, once set, is never
  cleared or changed, and a row that gains one is submitted or later. The states are
  those that satisfy \<open>queue_inv\<close>, which holds of the empty store and is kept by every
  operation.
\<close>

theorem status_never_regresses:
  assumes inv: "queue_inv s" and i: "i < length (tx_queue s)"
  shows "i < length (tx_queue (run ops s))
       \<and> q_id (tx_queue (run ops s) ! i) = q_id (tx_queue s ! i)
       \<and> status_le (q_status (tx_queue s ! i)) (q_status (tx_queue (run ops s) ! i))
       \<and> (case q_tx_hash (tx_queue s ! i) of
            Some h \<Rightarrow> q_tx_hash (tx_queue (run ops s) ! i) = Some h
          | None \<Rightarrow> q_tx_hash (tx_queue (run ops s) ! i) = None
                    \<or> 2 \<le> status_rank (q_status (tx_queue (run ops s) ! i)))"
proof -
  have ev: "queue_evolves (tx_queue s) (tx_queue (run ops s))"
    using run_inv_evolves [OF inv] by simp
  then have len: "i < length (tx_queue (run ops s))"
    using i by (simp add: queue_evolves_def)
  have "row_step (tx_queue s ! i) (tx_queue (run ops s) ! i)"
    using ev i by (simp add: queue_evolves_def list_all2_conv_all_nth)
  then show ?thesis
    using len by (simp add: row_step_def)
qed


theorem status_never_regresses_witness:
  "queue_inv (empty_gw\<lparr>tx_queue := [pending_enter], tx_queue_seq := 1\<rparr>)
   \<and> 0 < length (tx_queue (empty_gw\<lparr>tx_queue := [pending_enter], tx_queue_seq := 1\<rparr>))
   \<and> status_le
        (q_status (tx_queue (empty_gw\<lparr>tx_queue := [pending_enter], tx_queue_seq := 1\<rparr>) ! 0))
        (q_status (tx_queue
           (run [OpWorker (\<lambda>i. \<lparr>te_chain = good_chain, te_receipts = (\<lambda>j. None)\<rparr>),
                 OpRequest sample_ledger ''alice'' (Action stale_action)]
              (empty_gw\<lparr>tx_queue := [pending_enter], tx_queue_seq := 1\<rparr>)) ! 0))"
proof -
  let ?s = "empty_gw\<lparr>tx_queue := [pending_enter], tx_queue_seq := 1\<rparr>"
  have inv: "queue_inv ?s"
    by (simp add: queue_inv_def empty_gw_def pending_enter_def known_status_def)
  have i: "0 < length (tx_queue ?s)" by (simp add: empty_gw_def)
  note t = status_never_regresses [OF inv i, THEN conjunct2, THEN conjunct2, THEN conjunct1]
  show ?thesis by (rule conjI [OF inv conjI [OF i t]])
qed

text \<open>
  The reconciler's part of \<open>process_single_tx\<close> on its own: from a submitted row with
  its hash, whatever the polls return, the loop only moves the row on to mined or
  failed and keeps the hash.
\<close>

lemma update_tx_status_queue:
  "tx_queue (update_tx_status tx_id st h e s) =
     map (\<lambda>r. if q_id r = tx_id
              then r\<lparr>q_status := st, q_tx_hash := h, q_error := e, q_updated_at := clock s\<rparr>
              else r) (tx_queue s)"
  by (simp add: update_tx_status_def)

lemma poll_receipt_evolves:
  assumes "\<forall>r\<in>set (tx_queue s). q_id r = q_id tx \<longrightarrow>
             q_status r = ''submitted'' \<and> q_tx_hash r = Some h"
  shows "queue_evolves (tx_queue s) (tx_queue (poll_receipt n i rcs tx h s))"
  using assms
proof (induction n arbitrary: i s)
  case 0
  then show ?case by simp
next
  case (Suc n)
  show ?case
  proof (cases "rcs i")
    case None
    have "queue_evolves (tx_queue (sleep 2 s)) (tx_queue (poll_receipt n (Suc i) rcs tx h (sleep 2 s)))"
      using Suc.prems by (intro Suc.IH) (simp add: sleep_def)
    then show ?thesis by (simp add: None sleep_def)
  next
    case (Some receipt)
    let ?st = "if rc_status receipt = Some 1 then ''mined'' else ''failed''"
    let ?g = "\<lambda>r. if q_id r = q_id tx
                 then r\<lparr>q_status := ?st, q_tx_hash := Some h, q_error := None,
                        q_updated_at := clock s + 2\<rparr>
                 else r"
    have q: "tx_queue (poll_receipt (Suc n) i rcs tx h s) = map ?g (tx_queue s)"
      by (simp add: Some Let_def update_tx_status_queue sleep_def)
    have step: "row_step r (?g r)" if "r \<in> set (tx_queue s)" for r
      using that Suc.prems
      by (auto simp: row_step_def status_le_def status_rank_def split: option.splits)
    show ?thesis
      unfolding q using step by (rule queue_evolves_map)
  qed
qed

section \<open>IdempotencyGuard\<close>



















text \<open>
  Two requests with the same pair that both ran the lookup before either insert: the
  first insert gets the next key, the second raises on the uniqueness constraint and
  \<open>enqueue_tx\<close> passes the exception on; the queue holds one row for the pair.
\<close>

lemma enqueue_tx_after_lookup_race:
  assumes "check_idempotency m a s = None"
  shows "fst (enqueue_tx a m meth p s) = Inr (tx_queue_seq s + 1)
       \<and> enqueue_tx a m meth' p' (snd (enqueue_tx a m meth p s)) =
           (Inl (IntegrityError
                   ''UNIQUE constraint failed: tx_queue.moltbook_id, tx_queue.action_id''),
            snd (enqueue_tx a m meth p s))"
proof -
  have "find (same_action m a) (tx_queue s) = None"
    using assms by (simp add: check_idempotency_def get_tx_by_action_def split: option.splits)
  then have "\<not> list_ex (same_action m a) (tx_queue s)"
    by (simp add: find_None_iff list_ex_iff)
  then show ?thesis
    by (simp add: enqueue_tx_def Let_def same_action_def)
qed

section \<open>RewardLedger: what a rebuild changes\<close>

text \<open>
  After any history of awards from the empty store the numeric columns are the fold of
  the log, and a rebuild changes nothing but \<open>current_level\<close>, which it sets from the
  total. The incremental path sets the level from the total at every award but a
  subject's first.
\<close>

lemma sql_count_type_snoc:
  "evs \<noteq> [] \<Longrightarrow>
   sql_count_type t (evs @ [e]) =
     (if e_event_type e = t then sql_incr (sql_count_type t evs) else sql_count_type t evs)"
  by (simp add: sql_count_type_def sql_incr_def)

lemma sql_count_type_single:
  "sql_count_type t [e] = Some (if e_event_type e = t then 1 else 0)"
  by (simp add: sql_count_type_def)

lemma award_xp_stats_match:
  assumes "\<forall>m. stats_match s m"
  shows "stats_match (snd (award_xp k m' sid eid et xp gold src md s)) m"
proof (cases "list_ex (\<lambda>e. e_idempotency_key e = k) (xp_events s)")
  case True
  then show ?thesis using assms by (simp add: award_xp_def)
next
  case False
  have sm: "stats_match s m" and sm': "stats_match s m'" using assms by simp_all
  show ?thesis
  proof (cases "m = m'")
    case diff: False
    then show ?thesis
      using sm False
      by (simp add: award_xp_def stats_match_def events_of_def bump_counters_def
          update_stats_def upsert_award_def insert_xp_event_def split: option.splits)
  next
    case same: True
    show ?thesis
    proof (cases "agent_stats s m'")
      case None
      then have "events_of m' s = []" using sm' by (simp add: stats_match_def)
      then show ?thesis
        using False None same
        by (simp add: award_xp_def stats_match_def events_of_def bump_counters_def
            update_stats_def upsert_award_def insert_xp_event_def sql_count_type_single
            sql_incr_def)
    next
      case (Some r)
      then have ne: "events_of m' s \<noteq> []" using sm' by (simp add: stats_match_def)
      show ?thesis
        using False Some same sm' ne sql_count_type_snoc [OF ne]
        by (simp add: award_xp_def stats_match_def events_of_def bump_counters_def
            update_stats_def upsert_award_def insert_xp_event_def)
    qed
  qed
qed

lemma rebuild_changes_level_only:
  assumes "stats_match s m" "agent_stats s m = Some r"
  shows "agent_stats (rebuild_agent_stats m s) m =
           Some (r\<lparr>current_level := py_level (total_xp r)\<rparr>)"
  using assms
  by (simp add: rebuild_agent_stats_def stats_match_def events_of_def Let_def)


lemma awards_stats_match:
  "list_all is_award ops \<Longrightarrow> \<forall>m. stats_match s m \<Longrightarrow> \<forall>m. stats_match (run ops s) m"
proof (induction ops arbitrary: s)
  case Nil
  then show ?case by (simp add: run_def)
next
  case (Cons op ops)
  have aw: "is_award op" and rest: "list_all is_award ops" using Cons.prems(1) by simp_all
  have "\<forall>m. stats_match (apply_op op s) m"
    using aw Cons.prems(2) by (cases op) (simp_all add: award_xp_stats_match)
  then have "\<forall>m. stats_match (run ops (apply_op op s)) m"
    using rest by (intro Cons.IH)
  then show ?case by (simp add: run_def)
qed

lemma rebuild_after_awards:
  assumes "list_all is_award ops" "agent_stats (run ops empty_gw) m = Some r"
  shows "agent_stats (rebuild_agent_stats m (run ops empty_gw)) m =
           Some (r\<lparr>current_level := py_level (total_xp r)\<rparr>)"
proof -
  have "\<forall>m. stats_match empty_gw m"
    by (simp add: stats_match_def events_of_def empty_gw_def)
  then have "stats_match (run ops empty_gw) m"
    using awards_stats_match [OF assms(1)] by blast
  then show ?thesis using assms(2) by (rule rebuild_changes_level_only)
qed

end
